theory Spec2Isabelle
  imports Main "HOL-Library.AList"
begin

section \<open>Data model of the Plasmic command line tool\<close>

text \<open>
  The theory embeds the reconciliation and import fixing code of
  \<^verbatim>\<open>plasmic-cli/src/index.ts\<close>. Paths and file contents are strings. The entries of
  \<^verbatim>\<open>plasmic.json\<close> are records; the field \<^verbatim>\<open>id\<close>, \<^verbatim>\<open>name\<close>, \<^verbatim>\<open>type\<close> and
  \<^verbatim>\<open>projectId\<close> of a component entry carry the prefix \<open>c_\<close>, since HOL has constants
  of these names and the project entry has a \<^verbatim>\<open>projectId\<close> of its own.

  The file system of the model holds regular files only, so \<^verbatim>\<open>fs.existsSync\<close> is true of
  a path exactly when a file is stored there. A write never fails. The objects that
  Lodash builds are plain JavaScript objects: a finite map of their own properties, behind
  which the properties inherited from \<^verbatim>\<open>Object.prototype\<close> are visible to \<^verbatim>\<open>in\<close> and to
  a property read.
\<close>

record ImportSpec =
  modulePath :: string

record ComponentConfig =
  c_id :: string
  c_name :: string
  c_type :: string
  c_projectId :: string
  renderModuleFilePath :: string
  importSpec :: ImportSpec
  cssFilePath :: string

record ProjectConfig =
  projectId :: string
  contextFilePath :: string
  fontsFilePath :: string
  contextTypeName :: string

text \<open>What the server sends for one component and for one project (\<^verbatim>\<open>./api\<close>).\<close>

record ComponentBundle =
  renderModule :: string
  skeletonModule :: string
  cssRules :: string
  renderModuleFileName :: string
  skeletonModuleFileName :: string
  cssFileName :: string
  componentName :: string
  b_id :: string

record ProjectMeta =
  pc_projectId :: string
  contextFileName :: string
  contextModule :: string
  fontsFileName :: string
  fontsModule :: string
  pc_contextTypeName :: string

record ProjectBundle =
  results :: "ComponentBundle list"
  projectConfig :: ProjectMeta

record SyncArgs =
  opts_projects :: "string list"
  opts_components :: "string list"
  includeNew :: bool

text \<open>
  What a property inherited from \<^verbatim>\<open>Object.prototype\<close> holds: a function, with its
  \<^verbatim>\<open>length\<close>, or an object, which has none.
\<close>

datatype js_value = JSFunction nat | JSObject

text \<open>
  Everything the process does that can be observed from outside is an event: the console
  messages (with their arguments instead of the formatted text), the exit of the process,
  each call of \<^verbatim>\<open>writeFileContent\<close>, \<^verbatim>\<open>replaceImports\<close> and \<^verbatim>\<open>updateConfig\<close>. The
  ambiguity error prints the array it found under the file name; when what it found is an
  inherited property, it prints that value.
\<close>

datatype event =
    ConsoleLogSyncing string string string
  | ConsoleWarnMoved string string
  | ConsoleErrorNoProjects
  | ConsoleErrorAmbiguous string "string list" string
  | ConsoleErrorInherited string js_value string
  | Exit nat
  | WriteFileContent string string bool
  | ReplaceImports string "(string \<times> ComponentConfig) list" "(string \<times> ProjectConfig) list"
  | UpdateConfig "ComponentConfig list" "ProjectConfig list option"

text \<open>
  \<^verbatim>\<open>process.exit(n)\<close>, the exception of \<^verbatim>\<open>fs.readFileSync\<close> on a missing file and the
  \<^verbatim>\<open>TypeError\<close> of a function of \<^verbatim>\<open>path\<close> that is given \<^verbatim>\<open>undefined\<close> (with the name
  of the function) end the pass; all are error values.
\<close>

datatype error = ProcessExit nat | ReadFileError string | TypeError string

text \<open>
  The state of a pass: the regular files of the file system (absolute path to content), the
  context (\<^verbatim>\<open>context.rootDir\<close>, \<^verbatim>\<open>config.srcDir\<close>), the two mutable arrays
  \<^verbatim>\<open>config.components\<close> and \<^verbatim>\<open>config.projects\<close>, and the events so far. The arrays only
  grow at their end, so the position of an entry is its object identity: a reference to an
  entry is its index.
\<close>

record state =
  files :: "string \<rightharpoonup> string"
  ctx_rootDir :: string
  cfg_srcDir :: string
  components :: "ComponentConfig list"
  projects :: "ProjectConfig list"
  trace :: "event list"

text \<open>
  The functions the code imports and that are not part of \<^verbatim>\<open>index.ts\<close> are parameters:
  the three functions of Node's \<^verbatim>\<open>path\<close>, \<^verbatim>\<open>isLocalModulePath\<close> and \<^verbatim>\<open>replaceImports\<close> of
  \<^verbatim>\<open>./code-utils\<close>, \<^verbatim>\<open>glob.sync\<close> (from the files and the source directory to the list of
  the \<^verbatim>\<open>.ts\<close>, \<^verbatim>\<open>.tsx\<close> and \<^verbatim>\<open>.css\<close> files below it, outside \<^verbatim>\<open>node_modules\<close>) and
  \<^verbatim>\<open>api.projectComponents\<close>.
\<close>

record extern =
  path_join :: "string \<Rightarrow> string \<Rightarrow> string"
  path_basename :: "string \<Rightarrow> string"
  path_relative :: "string \<Rightarrow> string \<Rightarrow> string"
  isLocalModulePath :: "string \<Rightarrow> bool"
  replaceImports :: "string \<Rightarrow> string \<Rightarrow> (string \<times> ComponentConfig) list
                      \<Rightarrow> (string \<times> ProjectConfig) list \<Rightarrow> string"
  glob_sync :: "(string \<rightharpoonup> string) \<Rightarrow> string \<Rightarrow> string list"
  projectComponents :: "string \<Rightarrow> ProjectBundle"

section \<open>Primitive effects\<close>

definition emit :: "event \<Rightarrow> state \<Rightarrow> state" where
  "emit e s = s\<lparr>trace := trace s @ [e]\<rparr>"

definition existsSync :: "state \<Rightarrow> string \<Rightarrow> bool" where
  "existsSync s p = (files s p \<noteq> None)"

text \<open>
  Modelled from the spec: \<^verbatim>\<open>writeFileContent\<close> of \<^verbatim>\<open>./file-utils\<close>, which is not among
  the sources. Section 4.1: if \<^verbatim>\<open>force\<close> is false and a file already exists at the path,
  the write is skipped; otherwise the content is written.
\<close>

definition writeFileContent :: "string \<Rightarrow> string \<Rightarrow> bool \<Rightarrow> state \<Rightarrow> state" where
  "writeFileContent path content force s =
     (let s1 = emit (WriteFileContent path content force) s
      in if \<not> force \<and> existsSync s path then s1
         else s1\<lparr>files := (files s1)(path \<mapsto> content)\<rparr>)"

text \<open>
  Modelled from the spec: \<^verbatim>\<open>updateConfig\<close> of \<^verbatim>\<open>./config-utils\<close>, which is not among
  the sources. Section 4.5: the collections are handed to the configuration store; the
  call is recorded with the collections it is given.
\<close>

definition updateConfig :: "ComponentConfig list \<Rightarrow> ProjectConfig list option \<Rightarrow> state \<Rightarrow> state" where
  "updateConfig cs ps s = emit (UpdateConfig cs ps) s"

text \<open>Assignment to a field of the entry at a position of one of the two arrays.\<close>

definition update_component :: "nat \<Rightarrow> (ComponentConfig \<Rightarrow> ComponentConfig) \<Rightarrow> state \<Rightarrow> state" where
  "update_component i f s = s\<lparr>components := (components s)[i := f (components s ! i)]\<rparr>"

definition update_project :: "nat \<Rightarrow> (ProjectConfig \<Rightarrow> ProjectConfig) \<Rightarrow> state \<Rightarrow> state" where
  "update_project j f s = s\<lparr>projects := (projects s)[j := f (projects s ! j)]\<rparr>"

section \<open>Lodash collections\<close>

text \<open>
  \<^verbatim>\<open>L.groupBy\<close> appends each element to the array under its key, creating the array at
  the first element; \<^verbatim>\<open>L.keyBy\<close> stores each element under its key, a later element
  replacing an earlier one of the same key.
\<close>

definition groupBy :: "('a \<Rightarrow> 'k) \<Rightarrow> 'a list \<Rightarrow> ('k \<rightharpoonup> 'a list)" where
  "groupBy f xs =
     foldl (\<lambda>m x. m(f x \<mapsto> (case m (f x) of None \<Rightarrow> [x] | Some ys \<Rightarrow> ys @ [x]))) Map.empty xs"

definition keyBy :: "('a \<Rightarrow> 'k) \<Rightarrow> 'a list \<Rightarrow> ('k \<times> 'a) list" where
  "keyBy f xs = foldl (\<lambda>m x. AList.update (f x) x m) [] xs"

text \<open>
  The properties every plain object inherits, which \<^verbatim>\<open>key in object\<close> and
  \<^verbatim>\<open>object[key]\<close> find when the object has no own property of that name.
\<close>

definition object_prototype :: "string \<rightharpoonup> js_value" where
  "object_prototype =
     map_of [(''constructor'', JSFunction 1), (''hasOwnProperty'', JSFunction 1),
             (''isPrototypeOf'', JSFunction 1), (''propertyIsEnumerable'', JSFunction 1),
             (''toLocaleString'', JSFunction 0), (''toString'', JSFunction 0),
             (''valueOf'', JSFunction 0), (''__defineGetter__'', JSFunction 2),
             (''__defineSetter__'', JSFunction 2), (''__lookupGetter__'', JSFunction 1),
             (''__lookupSetter__'', JSFunction 1), (''__proto__'', JSObject)]"

fun findIndex :: "('a \<Rightarrow> bool) \<Rightarrow> 'a list \<Rightarrow> nat option" where
  "findIndex P [] = None"
| "findIndex P (x # xs) =
     (if P x then Some 0 else (case findIndex P xs of None \<Rightarrow> None | Some j \<Rightarrow> Some (Suc j)))"

section \<open>The file index and path reconciliation\<close>

definition src_dir :: "extern \<Rightarrow> state \<Rightarrow> string" where
  "src_dir E s = path_join E (ctx_rootDir s) (cfg_srcDir s)"

definition buildBaseNameToFiles :: "extern \<Rightarrow> state \<Rightarrow> (string \<rightharpoonup> string list)" where
  "buildBaseNameToFiles E s =
     (let srcDir = src_dir E s;
          allFiles = glob_sync E (files s) srcDir
      in groupBy (path_basename E) allFiles)"

text \<open>
  Line 470 tests \<^verbatim>\<open>fileName in baseNameToFiles\<close>, which also holds of an inherited
  property. Then \<^verbatim>\<open>baseNameToFiles[fileName]\<close> is that property: when its \<^verbatim>\<open>length\<close> is
  1, its element 0 is \<^verbatim>\<open>undefined\<close> and \<^verbatim>\<open>path.relative\<close> throws; otherwise the error is
  printed and the process exits.
\<close>

definition findSrcDirPath ::
  "extern \<Rightarrow> string \<Rightarrow> string \<Rightarrow> (string \<rightharpoonup> string list) \<Rightarrow> state \<Rightarrow> (error + string) \<times> state" where
  "findSrcDirPath E srcDir expectedPath baseNameToFiles s =
     (let fileName = path_basename E expectedPath
      in if existsSync s (path_join E srcDir expectedPath) then (Inr expectedPath, s)
         else (case baseNameToFiles fileName of
                 Some fs \<Rightarrow>
                   if length fs = 1 then (Inr (path_relative E srcDir (fs ! 0)), s)
                   else (Inl (ProcessExit 1),
                         emit (Exit 1) (emit (ConsoleErrorAmbiguous expectedPath fs fileName) s))
               | None \<Rightarrow>
                   (case object_prototype fileName of
                      None \<Rightarrow> (Inr expectedPath, s)
                    | Some v \<Rightarrow>
                        if v = JSFunction 1 then (Inl (TypeError ''path.relative''), s)
                        else (Inl (ProcessExit 1),
                              emit (Exit 1) (emit (ConsoleErrorInherited expectedPath v fileName) s)))))"

definition fixComponentPaths ::
  "extern \<Rightarrow> string \<Rightarrow> nat \<Rightarrow> (string \<rightharpoonup> string list) \<Rightarrow> state \<Rightarrow> (error + unit) \<times> state" where
  "fixComponentPaths E srcDir i baseNameToFiles s =
     (case findSrcDirPath E srcDir (renderModuleFilePath (components s ! i)) baseNameToFiles s of
        (Inl e, s1) \<Rightarrow> (Inl e, s1)
      | (Inr newRenderModuleFilePath, s1) \<Rightarrow>
          let s2 = (if newRenderModuleFilePath \<noteq> renderModuleFilePath (components s1 ! i)
                    then update_component i (\<lambda>c. c\<lparr>renderModuleFilePath := newRenderModuleFilePath\<rparr>)
                           (emit (ConsoleWarnMoved (renderModuleFilePath (components s1 ! i))
                                    newRenderModuleFilePath) s1)
                    else s1)
          in (case findSrcDirPath E srcDir (cssFilePath (components s2 ! i)) baseNameToFiles s2 of
                (Inl e, s3) \<Rightarrow> (Inl e, s3)
              | (Inr newCssFilePath, s3) \<Rightarrow>
                  let s4 = (if newCssFilePath \<noteq> cssFilePath (components s3 ! i)
                            then update_component i (\<lambda>c. c\<lparr>cssFilePath := newCssFilePath\<rparr>)
                                   (emit (ConsoleWarnMoved (cssFilePath (components s3 ! i))
                                            newCssFilePath) s3)
                            else s3)
                  in if isLocalModulePath E (modulePath (importSpec (components s4 ! i)))
                     then (let modulePath0 = modulePath (importSpec (components s4 ! i))
                           in case findSrcDirPath E srcDir modulePath0 baseNameToFiles s4 of
                                (Inl e, s5) \<Rightarrow> (Inl e, s5)
                              | (Inr fuzzyPath, s5) \<Rightarrow>
                                  (Inr (),
                                   if fuzzyPath \<noteq> modulePath0
                                   then update_component i
                                          (\<lambda>c. c\<lparr>importSpec := (importSpec c)\<lparr>modulePath := fuzzyPath\<rparr>\<rparr>)
                                          (emit (ConsoleWarnMoved modulePath0 fuzzyPath) s5)
                                   else s5))
                     else (Inr (), s4)))"

definition fixProjectFilePaths ::
  "extern \<Rightarrow> string \<Rightarrow> nat \<Rightarrow> (string \<rightharpoonup> string list) \<Rightarrow> state \<Rightarrow> (error + unit) \<times> state" where
  "fixProjectFilePaths E srcDir j baseNameToFiles s =
     (case findSrcDirPath E srcDir (contextFilePath (projects s ! j)) baseNameToFiles s of
        (Inl e, s1) \<Rightarrow> (Inl e, s1)
      | (Inr newContextFilePath, s1) \<Rightarrow>
          let s2 = (if newContextFilePath \<noteq> contextFilePath (projects s1 ! j)
                    then update_project j (\<lambda>p. p\<lparr>contextFilePath := newContextFilePath\<rparr>)
                           (emit (ConsoleWarnMoved (contextFilePath (projects s1 ! j))
                                    newContextFilePath) s1)
                    else s1)
          in (case findSrcDirPath E srcDir (fontsFilePath (projects s2 ! j)) baseNameToFiles s2 of
                (Inl e, s3) \<Rightarrow> (Inl e, s3)
              | (Inr newFontsFilePath, s3) \<Rightarrow>
                  (Inr (),
                   if newFontsFilePath \<noteq> fontsFilePath (projects s3 ! j)
                   then update_project j (\<lambda>p. p\<lparr>fontsFilePath := newFontsFilePath\<rparr>)
                          (emit (ConsoleWarnMoved (fontsFilePath (projects s3 ! j))
                                   newFontsFilePath) s3)
                   else s3)))"

section \<open>Rewriting of import statements\<close>

definition fixFileImportStatements ::
  "extern \<Rightarrow> string \<Rightarrow> string \<Rightarrow> (string \<times> ComponentConfig) list
     \<Rightarrow> (string \<times> ProjectConfig) list \<Rightarrow> state \<Rightarrow> (error + unit) \<times> state" where
  "fixFileImportStatements E srcDir srcDirFilePath allCompConfigs allProjectConfigs s =
     (case files s (path_join E srcDir srcDirFilePath) of
        None \<Rightarrow> (Inl (ReadFileError (path_join E srcDir srcDirFilePath)), s)
      | Some prevContent \<Rightarrow>
          let newContent = replaceImports E prevContent srcDirFilePath allCompConfigs allProjectConfigs
          in (Inr (),
              writeFileContent (path_join E srcDir srcDirFilePath) newContent True
                (emit (ReplaceImports srcDirFilePath allCompConfigs allProjectConfigs) s)))"

definition fixComponentImportStatements ::
  "extern \<Rightarrow> string \<Rightarrow> ComponentConfig \<Rightarrow> (string \<times> ComponentConfig) list
     \<Rightarrow> (string \<times> ProjectConfig) list \<Rightarrow> state \<Rightarrow> (error + unit) \<times> state" where
  "fixComponentImportStatements E srcDir compConfig allCompConfigs allProjectConfigs s =
     (case fixFileImportStatements E srcDir (renderModuleFilePath compConfig)
             allCompConfigs allProjectConfigs s of
        (Inl e, s1) \<Rightarrow> (Inl e, s1)
      | (Inr u, s1) \<Rightarrow>
          (case fixFileImportStatements E srcDir (cssFilePath compConfig)
                  allCompConfigs allProjectConfigs s1 of
             (Inl e, s2) \<Rightarrow> (Inl e, s2)
           | (Inr u, s2) \<Rightarrow>
               if isLocalModulePath E (modulePath (importSpec compConfig))
               then fixFileImportStatements E srcDir (modulePath (importSpec compConfig))
                      allCompConfigs allProjectConfigs s2
               else (Inr (), s2)))"

text \<open>The loop of \<^verbatim>\<open>fixAllImportStatements\<close> over \<^verbatim>\<open>config.components\<close>.\<close>

fun fixAllImportStatements_loop ::
  "extern \<Rightarrow> string \<Rightarrow> (string \<times> ComponentConfig) list \<Rightarrow> (string \<times> ProjectConfig) list
     \<Rightarrow> ComponentConfig list \<Rightarrow> state \<Rightarrow> (error + unit) \<times> state" where
  "fixAllImportStatements_loop E srcDir allCompConfigs allProjectConfigs [] s = (Inr (), s)"
| "fixAllImportStatements_loop E srcDir allCompConfigs allProjectConfigs (compConfig # rest) s =
     (case fixComponentImportStatements E srcDir compConfig allCompConfigs allProjectConfigs s of
        (Inl e, s1) \<Rightarrow> (Inl e, s1)
      | (Inr u, s1) \<Rightarrow> fixAllImportStatements_loop E srcDir allCompConfigs allProjectConfigs rest s1)"

definition fixAllImportStatements :: "extern \<Rightarrow> state \<Rightarrow> (error + unit) \<times> state" where
  "fixAllImportStatements E s =
     (let srcDir = src_dir E s;
          allCompConfigs = keyBy c_id (components s);
          allProjectConfigs = keyBy projectId (projects s)
      in fixAllImportStatements_loop E srcDir allCompConfigs allProjectConfigs (components s) s)"

section \<open>The fix-imports command\<close>

text \<open>The loop of \<^verbatim>\<open>fixImports\<close>, over the positions of \<^verbatim>\<open>config.components\<close>.\<close>

fun fixImports_loop ::
  "extern \<Rightarrow> string \<Rightarrow> (string \<rightharpoonup> string list) \<Rightarrow> nat list \<Rightarrow> state \<Rightarrow> (error + unit) \<times> state" where
  "fixImports_loop E srcDir baseNameToFiles [] s = (Inr (), s)"
| "fixImports_loop E srcDir baseNameToFiles (i # rest) s =
     (case fixComponentPaths E srcDir i baseNameToFiles s of
        (Inl e, s1) \<Rightarrow> (Inl e, s1)
      | (Inr u, s1) \<Rightarrow> fixImports_loop E srcDir baseNameToFiles rest s1)"

definition fixImports :: "extern \<Rightarrow> state \<Rightarrow> (error + unit) \<times> state" where
  "fixImports E s =
     (let srcDir = src_dir E s;
          baseNameToFiles = buildBaseNameToFiles E s
      in case fixImports_loop E srcDir baseNameToFiles [0 ..< length (components s)] s of
           (Inl e, s1) \<Rightarrow> (Inl e, s1)
         | (Inr u, s1) \<Rightarrow> fixAllImportStatements E (updateConfig (components s1) None s1))"

section \<open>The sync command\<close>

text \<open>
  \<^verbatim>\<open>components\<close> is the list the closure \<^verbatim>\<open>shouldSyncComponents\<close> captures: the names
  or ids given on the command line, or else the ids of the tracked components.
\<close>

definition sync_components :: "SyncArgs \<Rightarrow> ComponentConfig list \<Rightarrow> string list" where
  "sync_components opts cs =
     (if length (opts_components opts) > 0 then opts_components opts else map c_id cs)"

definition shouldSyncComponents :: "SyncArgs \<Rightarrow> string list \<Rightarrow> string \<Rightarrow> string \<Rightarrow> bool" where
  "shouldSyncComponents opts comps ident name =
     (if length comps = 0 \<or> (length (opts_components opts) = 0 \<and> includeNew opts) then True
      else ident \<in> set comps \<or> name \<in> set comps)"

text \<open>
  The body of the loop over the bundles of a project. \<^verbatim>\<open>allCompConfigs\<close> maps an id to the
  entry of \<^verbatim>\<open>config.components\<close> it refers to, that is to its position. For an id that
  is no own property but an inherited one, \<^verbatim>\<open>allCompConfigs[id]\<close> is the inherited value,
  which is truthy: the code takes the branch of an existing component, where
  \<^verbatim>\<open>compConfig.renderModuleFilePath\<close> is \<^verbatim>\<open>undefined\<close> and \<^verbatim>\<open>path.basename\<close> throws.
\<close>

definition syncComponentBundle ::
  "extern \<Rightarrow> SyncArgs \<Rightarrow> string \<Rightarrow> string list \<Rightarrow> (string \<rightharpoonup> string list) \<Rightarrow> string
     \<Rightarrow> ComponentBundle \<Rightarrow> (string \<times> nat) list \<Rightarrow> state \<Rightarrow> (error + (string \<times> nat) list) \<times> state" where
  "syncComponentBundle E opts srcDir comps baseNameToFiles projId bundle allCompConfigs s =
     (if \<not> shouldSyncComponents opts comps (b_id bundle) (componentName bundle)
      then (Inr allCompConfigs, s)
      else
        let s0 = emit (ConsoleLogSyncing (componentName bundle) projId (b_id bundle)) s
        in (case map_of allCompConfigs (b_id bundle) of
              None \<Rightarrow>
                if object_prototype (b_id bundle) \<noteq> None
                then (Inl (TypeError ''path.basename''), s0)
                else
                let compConfig = \<lparr> c_id = b_id bundle, c_name = componentName bundle,
                                   c_type = ''managed'', c_projectId = projId,
                                   renderModuleFilePath = renderModuleFileName bundle,
                                   importSpec = \<lparr> modulePath = skeletonModuleFileName bundle \<rparr>,
                                   cssFilePath = cssFileName bundle \<rparr>;
                    s1 = writeFileContent (path_join E srcDir (renderModuleFileName bundle))
                           (renderModule bundle) False s0;
                    s2 = writeFileContent (path_join E srcDir (cssFileName bundle))
                           (cssRules bundle) False s1;
                    s3 = writeFileContent (path_join E srcDir (skeletonModuleFileName bundle))
                           (skeletonModule bundle) False s2
                in (Inr (AList.update (b_id bundle) (length (components s3)) allCompConfigs),
                    s3\<lparr>components := components s3 @ [compConfig]\<rparr>)
            | Some i \<Rightarrow>
                (case fixComponentPaths E srcDir i baseNameToFiles s0 of
                   (Inl e, s1) \<Rightarrow> (Inl e, s1)
                 | (Inr u, s1) \<Rightarrow>
                     let s2 = writeFileContent
                                (path_join E srcDir (renderModuleFilePath (components s1 ! i)))
                                (renderModule bundle) True s1;
                         s3 = writeFileContent
                                (path_join E srcDir (cssFilePath (components s2 ! i)))
                                (cssRules bundle) True s2
                     in (Inr allCompConfigs, s3))))"

fun syncComponentBundles ::
  "extern \<Rightarrow> SyncArgs \<Rightarrow> string \<Rightarrow> string list \<Rightarrow> (string \<rightharpoonup> string list) \<Rightarrow> string
     \<Rightarrow> ComponentBundle list \<Rightarrow> (string \<times> nat) list \<Rightarrow> state \<Rightarrow> (error + (string \<times> nat) list) \<times> state" where
  "syncComponentBundles E opts srcDir comps baseNameToFiles projId [] allCompConfigs s =
     (Inr allCompConfigs, s)"
| "syncComponentBundles E opts srcDir comps baseNameToFiles projId (bundle # rest) allCompConfigs s =
     (case syncComponentBundle E opts srcDir comps baseNameToFiles projId bundle allCompConfigs s of
        (Inl e, s1) \<Rightarrow> (Inl e, s1)
      | (Inr acc, s1) \<Rightarrow>
          syncComponentBundles E opts srcDir comps baseNameToFiles projId rest acc s1)"

text \<open>The body of the loop over the projects: the bundles, then the files of the project.\<close>

definition syncProjectBundle ::
  "extern \<Rightarrow> SyncArgs \<Rightarrow> string \<Rightarrow> string list \<Rightarrow> (string \<rightharpoonup> string list) \<Rightarrow> string
     \<Rightarrow> ProjectBundle \<Rightarrow> (string \<times> nat) list \<Rightarrow> state \<Rightarrow> (error + (string \<times> nat) list) \<times> state" where
  "syncProjectBundle E opts srcDir comps baseNameToFiles projId projectBundle allCompConfigs s =
     (case syncComponentBundles E opts srcDir comps baseNameToFiles projId
             (results projectBundle) allCompConfigs s of
        (Inl e, s1) \<Rightarrow> (Inl e, s1)
      | (Inr acc, s1) \<Rightarrow>
          let pc = projectConfig projectBundle
          in (case findIndex (\<lambda>c. projectId c = pc_projectId pc) (projects s1) of
                None \<Rightarrow>
                  let s2 = writeFileContent (path_join E srcDir (contextFileName pc))
                             (contextModule pc) False s1;
                      s3 = writeFileContent (path_join E srcDir (fontsFileName pc))
                             (fontsModule pc) False s2;
                      c = \<lparr> projectId = pc_projectId pc, contextFilePath = contextFileName pc,
                            fontsFilePath = fontsFileName pc,
                            contextTypeName = pc_contextTypeName pc \<rparr>
                  in (Inr acc, s3\<lparr>projects := projects s3 @ [c]\<rparr>)
              | Some j \<Rightarrow>
                  (case fixProjectFilePaths E srcDir j baseNameToFiles s1 of
                     (Inl e, s2) \<Rightarrow> (Inl e, s2)
                   | (Inr u, s2) \<Rightarrow>
                       let s3 = writeFileContent
                                  (path_join E srcDir (contextFilePath (projects s2 ! j)))
                                  (contextModule pc) True s2;
                           s4 = writeFileContent
                                  (path_join E srcDir (fontsFilePath (projects s3 ! j)))
                                  (fontsModule pc) True s3
                       in (Inr acc, s4))))"

fun syncProjectBundles ::
  "extern \<Rightarrow> SyncArgs \<Rightarrow> string \<Rightarrow> string list \<Rightarrow> (string \<rightharpoonup> string list)
     \<Rightarrow> (string \<times> ProjectBundle) list \<Rightarrow> (string \<times> nat) list \<Rightarrow> state
     \<Rightarrow> (error + (string \<times> nat) list) \<times> state" where
  "syncProjectBundles E opts srcDir comps baseNameToFiles [] allCompConfigs s =
     (Inr allCompConfigs, s)"
| "syncProjectBundles E opts srcDir comps baseNameToFiles ((projId, projectBundle) # rest)
     allCompConfigs s =
     (case syncProjectBundle E opts srcDir comps baseNameToFiles projId projectBundle
             allCompConfigs s of
        (Inl e, s1) \<Rightarrow> (Inl e, s1)
      | (Inr acc, s1) \<Rightarrow> syncProjectBundles E opts srcDir comps baseNameToFiles rest acc s1)"

definition sync_projectIds :: "SyncArgs \<Rightarrow> state \<Rightarrow> string list" where
  "sync_projectIds opts s =
     (if length (opts_projects opts) > 0 then opts_projects opts
      else map c_projectId (components s))"

text \<open>
  Everything of \<^verbatim>\<open>syncProjects\<close> up to the end of the loop over the projects; the result
  after a fatal error is that error.
\<close>

definition syncProjects_bundles ::
  "extern \<Rightarrow> SyncArgs \<Rightarrow> state \<Rightarrow> (error + (string \<times> nat) list) \<times> state" where
  "syncProjects_bundles E opts s =
     (let srcDir = src_dir E s;
          projectIds = sync_projectIds opts s
      in if length projectIds = 0
         then (Inl (ProcessExit 1), emit (Exit 1) (emit ConsoleErrorNoProjects s))
         else
           let comps = sync_components opts (components s);
               allCompConfigs = keyBy (\<lambda>i. c_id (components s ! i)) [0 ..< length (components s)];
               baseNameToFiles = buildBaseNameToFiles E s;
               bundles = map (projectComponents E) projectIds
           in syncProjectBundles E opts srcDir comps baseNameToFiles (zip projectIds bundles)
                allCompConfigs s)"

definition syncProjects :: "extern \<Rightarrow> SyncArgs \<Rightarrow> state \<Rightarrow> (error + unit) \<times> state" where
  "syncProjects E opts s =
     (case syncProjects_bundles E opts s of
        (Inl e, s1) \<Rightarrow> (Inl e, s1)
      | (Inr acc, s1) \<Rightarrow>
          fixAllImportStatements E (updateConfig (components s1) (Some (projects s1)) s1))"

section \<open>Classes of events\<close>

text \<open>
  The events that announce the end of the process, and the traces without them. A pass
  that ends with \<^verbatim>\<open>process.exit(1)\<close> has printed one error message right before.
\<close>

fun fatal_event :: "event \<Rightarrow> bool" where
  "fatal_event (ConsoleErrorAmbiguous p c f) = True"
| "fatal_event (ConsoleErrorInherited p v f) = True"
| "fatal_event ConsoleErrorNoProjects = True"
| "fatal_event (Exit n) = True"
| "fatal_event e = False"

definition quiet :: "event list \<Rightarrow> bool" where
  "quiet t \<longleftrightarrow> (\<forall>e \<in> set t. \<not> fatal_event e)"

definition failure :: "error + 'a \<Rightarrow> error option" where
  "failure r = (case r of Inl e \<Rightarrow> Some e | Inr x \<Rightarrow> None)"

definition run_ok :: "error option \<Rightarrow> event list \<Rightarrow> bool" where
  "run_ok r t =
     (case r of
        Some (ProcessExit n) \<Rightarrow>
          n = 1 \<and> (\<exists>pre e. t = pre @ [e, Exit 1] \<and> quiet pre \<and>
                     (e = ConsoleErrorNoProjects \<or> (\<exists>p c f. e = ConsoleErrorAmbiguous p c f) \<or>
                      (\<exists>p v f. e = ConsoleErrorInherited p v f)))
      | _ \<Rightarrow> quiet t)"

fun reconcile_event :: "event \<Rightarrow> bool" where
  "reconcile_event (ConsoleWarnMoved old new) = True"
| "reconcile_event (ConsoleErrorAmbiguous p c f) = True"
| "reconcile_event (ConsoleErrorInherited p v f) = True"
| "reconcile_event (Exit n) = True"
| "reconcile_event e = False"

fun is_ReplaceImports :: "event \<Rightarrow> bool" where
  "is_ReplaceImports (ReplaceImports p cs ps) = True"
| "is_ReplaceImports e = False"

text \<open>
  What the import rewriter does with the tables \<open>ct\<close> and \<open>pt\<close>: calls of
  \<^verbatim>\<open>replaceImports\<close> with these tables, and forced writes.
\<close>

fun rewrite_event ::
  "(string \<times> ComponentConfig) list \<Rightarrow> (string \<times> ProjectConfig) list \<Rightarrow> event \<Rightarrow> bool" where
  "rewrite_event ct pt (ReplaceImports p cs ps) = (cs = ct \<and> ps = pt)"
| "rewrite_event ct pt (WriteFileContent p c force) = force"
| "rewrite_event ct pt e = False"

section \<open>Auxiliary functions of the proofs\<close>

text \<open>
  The decision of \<^verbatim>\<open>findSrcDirPath\<close> as a function of the files alone (the error and
  the events when it does not return), and the pattern that \<^verbatim>\<open>fixComponentPaths\<close> repeats for
  each of its three fields: resolve the field, and warn and assign when the result
  differs. Both are shown to agree with the functions above before they are used.
\<close>

definition resolve ::
  "extern \<Rightarrow> string \<Rightarrow> string \<Rightarrow> (string \<rightharpoonup> string list) \<Rightarrow> (string \<rightharpoonup> string)
     \<Rightarrow> (error \<times> event list) + string" where
  "resolve E d p idx fs =
     (if fs (path_join E d p) \<noteq> None then Inr p
      else (case idx (path_basename E p) of
              Some c \<Rightarrow>
                if length c = 1 then Inr (path_relative E d (c ! 0))
                else Inl (ProcessExit 1, [ConsoleErrorAmbiguous p c (path_basename E p), Exit 1])
            | None \<Rightarrow>
                (case object_prototype (path_basename E p) of
                   None \<Rightarrow> Inr p
                 | Some v \<Rightarrow>
                     if v = JSFunction 1 then Inl (TypeError ''path.relative'', [])
                     else Inl (ProcessExit 1,
                               [ConsoleErrorInherited p v (path_basename E p), Exit 1]))))"

definition fix_step ::
  "extern \<Rightarrow> string \<Rightarrow> (string \<rightharpoonup> string list) \<Rightarrow> (ComponentConfig \<Rightarrow> string)
     \<Rightarrow> (string \<Rightarrow> ComponentConfig \<Rightarrow> ComponentConfig) \<Rightarrow> nat \<Rightarrow> state \<Rightarrow> (error + unit) \<times> state" where
  "fix_step E d idx get upd i s =
     (case findSrcDirPath E d (get (components s ! i)) idx s of
        (Inl e, s1) \<Rightarrow> (Inl e, s1)
      | (Inr q, s1) \<Rightarrow>
          (Inr (),
           if q \<noteq> get (components s1 ! i)
           then update_component i (upd q) (emit (ConsoleWarnMoved (get (components s1 ! i)) q) s1)
           else s1))"

text \<open>
  The table \<^verbatim>\<open>allCompConfigs\<close> is sound for a state when each of its references is a
  position of \<^verbatim>\<open>config.components\<close> and the entry there has the id it is stored under.
\<close>

definition table_ok :: "(string \<times> nat) list \<Rightarrow> state \<Rightarrow> bool" where
  "table_ok acc s \<longleftrightarrow>
     (\<forall>k i. map_of acc k = Some i \<longrightarrow> i < length (components s) \<and> c_id (components s ! i) = k)"

section \<open>A sample installation\<close>

text \<open>
  Concrete collaborators on which the model runs: POSIX paths without \<^verbatim>\<open>.\<close> and \<^verbatim>\<open>..\<close>
  segments, a module path that is local when its last segment has an extension, an import
  rewriter that leaves the content as it is, a server with one project of one component,
  and a source directory \<^verbatim>\<open>/r/src\<close>.
\<close>

definition posix_join :: "string \<Rightarrow> string \<Rightarrow> string" where
  "posix_join a b = a @ ''/'' @ b"

definition posix_basename :: "string \<Rightarrow> string" where
  "posix_basename p = rev (takeWhile (\<lambda>c. c \<noteq> CHR ''/'') (rev p))"

definition posix_relative :: "string \<Rightarrow> string \<Rightarrow> string" where
  "posix_relative from to =
     (if take (length from + 1) to = from @ ''/'' then drop (length from + 1) to else to)"

definition sample_component :: ComponentBundle where
  "sample_component =
     \<lparr> renderModule = ''render2'', skeletonModule = ''skeleton2'', cssRules = ''css2'',
       renderModuleFileName = ''PB.tsx'', skeletonModuleFileName = ''B.tsx'',
       cssFileName = ''PB.css'', componentName = ''B'', b_id = ''c1'' \<rparr>"

definition sample_bundle :: ProjectBundle where
  "sample_bundle =
     \<lparr> results = [sample_component],
       projectConfig = \<lparr> pc_projectId = ''P1'', contextFileName = ''Ctx.tsx'',
                         contextModule = ''ctx2'', fontsFileName = ''Fonts.tsx'',
                         fontsModule = ''fonts2'', pc_contextTypeName = ''Ctx'' \<rparr> \<rparr>"

definition sample_extern :: extern where
  "sample_extern =
     \<lparr> path_join = posix_join, path_basename = posix_basename, path_relative = posix_relative,
       isLocalModulePath = (\<lambda>p. CHR ''.'' \<in> set (posix_basename p)),
       replaceImports = (\<lambda>content p cs ps. content),
       glob_sync = (\<lambda>fs srcDir. filter (\<lambda>p. fs p \<noteq> None)
                      [''/r/src/x/PB.tsx'', ''/r/src/x/PB.css'', ''/r/src/x/B.tsx'',
                       ''/r/src/y/PB.tsx'', ''/r/src/PB.tsx'', ''/r/src/PB.css'',
                       ''/r/src/B.tsx'', ''/r/src/Ctx.tsx'', ''/r/src/Fonts.tsx'',
                       ''/r/src/x/Card.tsx'']),
       projectComponents = (\<lambda>projId. sample_bundle) \<rparr>"

definition sample_opts :: SyncArgs where
  "sample_opts = \<lparr> opts_projects = [''P1''], opts_components = [], includeNew = False \<rparr>"

text \<open>Nothing synced yet.\<close>

definition fresh_state :: state where
  "fresh_state = \<lparr> files = Map.empty, ctx_rootDir = ''/r'', cfg_srcDir = ''src'',
                    components = [], projects = [], trace = [] \<rparr>"

text \<open>
  The component is tracked under \<^verbatim>\<open>old/\<close>, and its three files have been moved to
  \<^verbatim>\<open>x/\<close>.
\<close>

definition tracked_component :: ComponentConfig where
  "tracked_component =
     \<lparr> c_id = ''c1'', c_name = ''B'', c_type = ''managed'', c_projectId = ''P1'',
       renderModuleFilePath = ''old/PB.tsx'', importSpec = \<lparr> modulePath = ''old/B.tsx'' \<rparr>,
       cssFilePath = ''old/PB.css'' \<rparr>"

definition tracked_project :: ProjectConfig where
  "tracked_project =
     \<lparr> projectId = ''P1'', contextFilePath = ''Ctx.tsx'', fontsFilePath = ''Fonts.tsx'',
       contextTypeName = ''Ctx'' \<rparr>"

definition moved_state :: state where
  "moved_state =
     \<lparr> files = [''/r/src/x/PB.tsx'' \<mapsto> ''render1'', ''/r/src/x/PB.css'' \<mapsto> ''css1'',
                 ''/r/src/x/B.tsx'' \<mapsto> ''skeleton1'', ''/r/src/Ctx.tsx'' \<mapsto> ''ctx1'',
                 ''/r/src/Fonts.tsx'' \<mapsto> ''fonts1''],
       ctx_rootDir = ''/r'', cfg_srcDir = ''src'',
       components = [tracked_component], projects = [tracked_project], trace = [] \<rparr>"

text \<open>The same, with a second file of the name of the render module.\<close>

definition ambiguous_state :: state where
  "ambiguous_state = moved_state\<lparr>files := (files moved_state)(''/r/src/y/PB.tsx'' \<mapsto> ''other'')\<rparr>"

text \<open>The context file of the project is tracked under \<^verbatim>\<open>old/\<close>, where it is not.\<close>

definition stale_project_state :: state where
  "stale_project_state =
     moved_state\<lparr>projects := [tracked_project\<lparr>contextFilePath := ''old/Ctx.tsx''\<rparr>]\<rparr>"

text \<open>
  Two tracked components of the project, of which the server still knows the first only.
  The files of the first are where its entry says; the render module of the second is
  tracked under \<^verbatim>\<open>old/\<close> and has been moved to \<^verbatim>\<open>x/\<close>.
\<close>

definition settled_component :: ComponentConfig where
  "settled_component =
     \<lparr> c_id = ''c1'', c_name = ''B'', c_type = ''managed'', c_projectId = ''P1'',
       renderModuleFilePath = ''x/PB.tsx'', importSpec = \<lparr> modulePath = ''x/B.tsx'' \<rparr>,
       cssFilePath = ''x/PB.css'' \<rparr>"

definition stale_card :: ComponentConfig where
  "stale_card =
     \<lparr> c_id = ''c9'', c_name = ''Card'', c_type = ''managed'', c_projectId = ''P1'',
       renderModuleFilePath = ''old/Card.tsx'', importSpec = \<lparr> modulePath = ''@lib/card'' \<rparr>,
       cssFilePath = ''x/Card.css'' \<rparr>"

definition unsynced_state :: state where
  "unsynced_state =
     moved_state\<lparr>files := (files moved_state)(''/r/src/x/Card.tsx'' \<mapsto> ''card1'',
                                                ''/r/src/x/Card.css'' \<mapsto> ''cardcss1''),
                  components := [settled_component, stale_card]\<rparr>"

section \<open>The file index\<close>

lemma groupBy_foldl:
  "foldl (\<lambda>m x. m(f x \<mapsto> (case m (f x) of None \<Rightarrow> [x] | Some ys \<Rightarrow> ys @ [x]))) m0 xs k =
     (if filter (\<lambda>x. f x = k) xs = [] then m0 k
      else Some ((case m0 k of None \<Rightarrow> [] | Some ys \<Rightarrow> ys) @ filter (\<lambda>x. f x = k) xs))"
  by (induction xs arbitrary: m0) (auto split: option.splits)

lemma groupBy_lookup:
  "groupBy f xs k =
     (if filter (\<lambda>x. f x = k) xs = [] then None else Some (filter (\<lambda>x. f x = k) xs))"
  by (simp add: groupBy_def groupBy_foldl)

lemmas model_defs =
  syncProjects_def syncProjects_bundles_def syncProjectBundle_def syncComponentBundle_def
  fixComponentPaths_def fixProjectFilePaths_def findSrcDirPath_def writeFileContent_def
  emit_def existsSync_def updateConfig_def update_component_def update_project_def src_dir_def
  buildBaseNameToFiles_def groupBy_def keyBy_def fixAllImportStatements_def
  fixComponentImportStatements_def fixFileImportStatements_def sync_projectIds_def
  sync_components_def shouldSyncComponents_def fixImports_def Let_def

lemmas sample_defs =
  sample_extern_def sample_opts_def fresh_state_def sample_bundle_def sample_component_def
  posix_join_def posix_basename_def posix_relative_def tracked_component_def
  tracked_project_def moved_state_def ambiguous_state_def stale_project_state_def
  settled_component_def stale_card_def unsynced_state_def object_prototype_def

section \<open>Traces and frames of the reconciliation and of the bundle loop\<close>

subsection \<open>Traces that end with an exit\<close>

lemma quiet_simps [simp]:
  "quiet []" "quiet (t @ u) \<longleftrightarrow> quiet t \<and> quiet u" "quiet (e # t) \<longleftrightarrow> \<not> fatal_event e \<and> quiet t"
  by (auto simp: quiet_def)

lemma failure_simps [simp]:
  "failure (Inl e) = Some e" "failure (Inr x) = None"
  by (simp_all add: failure_def)

lemma run_ok_simps [simp]:
  "run_ok None t = quiet t"
  "run_ok (Some (ReadFileError p)) t = quiet t"
  "run_ok (Some (TypeError m)) t = quiet t"
  by (simp_all add: run_ok_def)

lemma run_ok_Cons [simp]:
  "\<not> fatal_event e \<Longrightarrow> run_ok r (e # t) = run_ok r t"
  by (auto simp: run_ok_def Cons_eq_append_conv split: option.splits error.splits)

lemma run_ok_append [simp]:
  "quiet t \<Longrightarrow> run_ok r (t @ u) = run_ok r u"
  by (induction t) auto

lemma run_ok_exit [simp]:
  "run_ok (Some (ProcessExit (Suc 0))) [ConsoleErrorAmbiguous p c f, Exit (Suc 0)]"
  "run_ok (Some (ProcessExit (Suc 0))) [ConsoleErrorInherited p v f, Exit (Suc 0)]"
  "run_ok (Some (ProcessExit (Suc 0))) [ConsoleErrorNoProjects, Exit (Suc 0)]"
  by (auto simp: run_ok_def)

subsection \<open>Selectors after the primitive effects\<close>

lemma writeFileContent_simps [simp]:
  "trace (writeFileContent p c f s) = trace s @ [WriteFileContent p c f]"
  "components (writeFileContent p c f s) = components s"
  "projects (writeFileContent p c f s) = projects s"
  "ctx_rootDir (writeFileContent p c f s) = ctx_rootDir s"
  "cfg_srcDir (writeFileContent p c f s) = cfg_srcDir s"
  by (simp_all add: writeFileContent_def emit_def Let_def)

lemma emit_simps [simp]:
  "trace (emit e s) = trace s @ [e]"
  "components (emit e s) = components s"
  "projects (emit e s) = projects s"
  "files (emit e s) = files s"
  "ctx_rootDir (emit e s) = ctx_rootDir s"
  "cfg_srcDir (emit e s) = cfg_srcDir s"
  by (simp_all add: emit_def)

lemma update_component_simps [simp]:
  "trace (update_component i f s) = trace s"
  "components (update_component i f s) = (components s)[i := f (components s ! i)]"
  "projects (update_component i f s) = projects s"
  "files (update_component i f s) = files s"
  "ctx_rootDir (update_component i f s) = ctx_rootDir s"
  "cfg_srcDir (update_component i f s) = cfg_srcDir s"
  by (simp_all add: update_component_def)

lemma update_project_simps [simp]:
  "trace (update_project i f s) = trace s"
  "components (update_project i f s) = components s"
  "projects (update_project i f s) = (projects s)[i := f (projects s ! i)]"
  "files (update_project i f s) = files s"
  "ctx_rootDir (update_project i f s) = ctx_rootDir s"
  "cfg_srcDir (update_project i f s) = cfg_srcDir s"
  by (simp_all add: update_project_def)

subsection \<open>Events and frame of the reconciliation\<close>

lemma findSrcDirPath_result:
  "findSrcDirPath E srcDir p idx s = (r, s') \<Longrightarrow>
     files s' = files s \<and> components s' = components s \<and> projects s' = projects s \<and>
     ctx_rootDir s' = ctx_rootDir s \<and> cfg_srcDir s' = cfg_srcDir s \<and>
     (case r of
        Inr q \<Rightarrow> s' = s
      | Inl e \<Rightarrow>
          (\<exists>t. trace s' = trace s @ t \<and> run_ok (Some e) t \<and>
               (\<forall>x\<in>set t. reconcile_event x \<and> fatal_event x)))"
  by (auto simp: findSrcDirPath_def Let_def split: if_splits option.splits)

lemma fixComponentPaths_inv:
  assumes "fixComponentPaths E d i idx s = (r, s')"
  shows "(\<exists>t. trace s' = trace s @ t \<and> run_ok (failure r) t \<and> (\<forall>e \<in> set t. reconcile_event e)) \<and>
         files s' = files s \<and> projects s' = projects s \<and> ctx_rootDir s' = ctx_rootDir s \<and>
         cfg_srcDir s' = cfg_srcDir s \<and> length (components s') = length (components s)"
  using assms unfolding fixComponentPaths_def
  by (auto simp: Let_def
      split: prod.splits sum.splits if_splits dest!: findSrcDirPath_result)

lemma fixProjectFilePaths_inv:
  assumes "fixProjectFilePaths E d i idx s = (r, s')"
  shows "(\<exists>t. trace s' = trace s @ t \<and> run_ok (failure r) t \<and> (\<forall>e \<in> set t. reconcile_event e)) \<and>
         files s' = files s \<and> components s' = components s \<and> ctx_rootDir s' = ctx_rootDir s \<and>
         cfg_srcDir s' = cfg_srcDir s \<and> length (projects s') = length (projects s)"
  using assms unfolding fixProjectFilePaths_def
  by (auto simp: Let_def
      split: prod.splits sum.splits if_splits dest!: findSrcDirPath_result)

lemma reconcile_not_replace: "reconcile_event e \<Longrightarrow> \<not> is_ReplaceImports e"
  by (cases e) auto

subsection \<open>Events of the loops of the sync command\<close>

lemma syncComponentBundle_inv:
  assumes "syncComponentBundle E opts d comps idx pid b acc s = (r, s')"
  shows "(\<exists>t. trace s' = trace s @ t \<and> run_ok (failure r) t \<and> (\<forall>e \<in> set t. \<not> is_ReplaceImports e)) \<and>
           ctx_rootDir s' = ctx_rootDir s \<and> cfg_srcDir s' = cfg_srcDir s"
  using assms unfolding syncComponentBundle_def
  by (auto simp: Let_def reconcile_not_replace
      split: prod.splits sum.splits if_splits option.splits
      dest!: fixComponentPaths_inv)

lemma syncComponentBundles_inv:
  assumes "syncComponentBundles E opts d comps idx pid bs acc s = (r, s')"
  shows "(\<exists>t. trace s' = trace s @ t \<and> run_ok (failure r) t \<and> (\<forall>e \<in> set t. \<not> is_ReplaceImports e)) \<and>
           ctx_rootDir s' = ctx_rootDir s \<and> cfg_srcDir s' = cfg_srcDir s"
  using assms
proof (induction bs arbitrary: acc s)
  case Nil
  then show ?case by auto
next
  case (Cons b bs)
  show ?case
  proof (cases "syncComponentBundle E opts d comps idx pid b acc s")
    case (Pair r1 s1)
    note h1 = syncComponentBundle_inv [OF Pair]
    show ?thesis
    proof (cases r1)
      case (Inl e)
      with Cons.prems Pair h1 show ?thesis by simp
    next
      case (Inr acc1)
      with Cons.prems Pair have "syncComponentBundles E opts d comps idx pid bs acc1 s1 = (r, s')"
        by simp
      from Cons.IH [OF this] h1 Inr show ?thesis by auto
    qed
  qed
qed

lemma syncProjectBundle_inv:
  assumes "syncProjectBundle E opts d comps idx pid pb acc s = (r, s')"
  shows "(\<exists>t. trace s' = trace s @ t \<and> run_ok (failure r) t \<and> (\<forall>e \<in> set t. \<not> is_ReplaceImports e)) \<and>
           ctx_rootDir s' = ctx_rootDir s \<and> cfg_srcDir s' = cfg_srcDir s"
  using assms unfolding syncProjectBundle_def
  by (auto simp: Let_def reconcile_not_replace
      split: prod.splits sum.splits if_splits option.splits
      dest!: fixProjectFilePaths_inv syncComponentBundles_inv)

lemma syncProjectBundles_inv:
  assumes "syncProjectBundles E opts d comps idx pbs acc s = (r, s')"
  shows "(\<exists>t. trace s' = trace s @ t \<and> run_ok (failure r) t \<and> (\<forall>e \<in> set t. \<not> is_ReplaceImports e)) \<and>
           ctx_rootDir s' = ctx_rootDir s \<and> cfg_srcDir s' = cfg_srcDir s"
  using assms
proof (induction pbs arbitrary: acc s)
  case Nil
  then show ?case by auto
next
  case (Cons pb pbs)
  obtain pid b where pb: "pb = (pid, b)" by (cases pb)
  show ?case
  proof (cases "syncProjectBundle E opts d comps idx pid b acc s")
    case (Pair r1 s1)
    note h1 = syncProjectBundle_inv [OF Pair]
    show ?thesis
    proof (cases r1)
      case (Inl e)
      with Cons.prems Pair h1 pb show ?thesis by simp
    next
      case (Inr acc1)
      with Cons.prems Pair pb have "syncProjectBundles E opts d comps idx pbs acc1 s1 = (r, s')"
        by simp
      from Cons.IH [OF this] h1 Inr show ?thesis by auto
    qed
  qed
qed

lemma syncProjects_bundles_inv:
  assumes "syncProjects_bundles E opts s = (r, s')"
  shows "(\<exists>t. trace s' = trace s @ t \<and> run_ok (failure r) t \<and> (\<forall>e \<in> set t. \<not> is_ReplaceImports e)) \<and>
           ctx_rootDir s' = ctx_rootDir s \<and> cfg_srcDir s' = cfg_srcDir s"
  using assms unfolding syncProjects_bundles_def
  by (auto simp: Let_def split: if_splits dest!: syncProjectBundles_inv)

subsection \<open>Events and frame of the import rewriter\<close>

lemma rewrite_event_quiet: "\<forall>e\<in>set t. rewrite_event ct pt e \<Longrightarrow> quiet t"
  unfolding quiet_def
proof
  fix e assume a: "\<forall>e\<in>set t. rewrite_event ct pt e" and e: "e \<in> set t"
  then have "rewrite_event ct pt e" by blast
  then show "\<not> fatal_event e" by (cases e) auto
qed

lemma fixFileImportStatements_inv:
  assumes "fixFileImportStatements E d p ct pt s = (r, s')"
  shows "(\<exists>t. trace s' = trace s @ t \<and> (\<forall>e \<in> set t. rewrite_event ct pt e)) \<and>
         (\<forall>n. failure r \<noteq> Some (ProcessExit n)) \<and>
         components s' = components s \<and> projects s' = projects s \<and>
         ctx_rootDir s' = ctx_rootDir s \<and> cfg_srcDir s' = cfg_srcDir s"
  using assms unfolding fixFileImportStatements_def
  by (auto simp: Let_def split: option.splits)

lemma fixComponentImportStatements_inv:
  assumes "fixComponentImportStatements E d c ct pt s = (r, s')"
  shows "(\<exists>t. trace s' = trace s @ t \<and> (\<forall>e \<in> set t. rewrite_event ct pt e)) \<and>
         (\<forall>n. failure r \<noteq> Some (ProcessExit n)) \<and>
         components s' = components s \<and> projects s' = projects s \<and>
         ctx_rootDir s' = ctx_rootDir s \<and> cfg_srcDir s' = cfg_srcDir s"
  using assms unfolding fixComponentImportStatements_def
  by (auto simp: Let_def split: prod.splits sum.splits if_splits
      dest!: fixFileImportStatements_inv)

lemma fixAllImportStatements_loop_inv:
  assumes "fixAllImportStatements_loop E d ct pt cs s = (r, s')"
  shows "(\<exists>t. trace s' = trace s @ t \<and> (\<forall>e \<in> set t. rewrite_event ct pt e)) \<and>
         (\<forall>n. failure r \<noteq> Some (ProcessExit n)) \<and>
         components s' = components s \<and> projects s' = projects s \<and>
         ctx_rootDir s' = ctx_rootDir s \<and> cfg_srcDir s' = cfg_srcDir s"
  using assms
proof (induction cs arbitrary: s)
  case Nil
  then show ?case by auto
next
  case (Cons c cs)
  show ?case
  proof (cases "fixComponentImportStatements E d c ct pt s")
    case (Pair r1 s1)
    note h1 = fixComponentImportStatements_inv [OF Pair]
    show ?thesis
    proof (cases r1)
      case (Inl e)
      with Cons.prems Pair h1 show ?thesis by simp
    next
      case (Inr u)
      with Cons.prems Pair have "fixAllImportStatements_loop E d ct pt cs s1 = (r, s')"
        by simp
      from Cons.IH [OF this] h1 Inr show ?thesis by auto
    qed
  qed
qed

lemma fixAllImportStatements_inv:
  assumes "fixAllImportStatements E s = (r, s')"
  shows "(\<exists>t. trace s' = trace s @ t \<and>
              (\<forall>e \<in> set t. rewrite_event (keyBy c_id (components s)) (keyBy projectId (projects s)) e)) \<and>
         (\<forall>n. failure r \<noteq> Some (ProcessExit n)) \<and>
         components s' = components s \<and> projects s' = projects s \<and>
         ctx_rootDir s' = ctx_rootDir s \<and> cfg_srcDir s' = cfg_srcDir s"
  using assms unfolding fixAllImportStatements_def
  by (auto simp: Let_def dest!: fixAllImportStatements_loop_inv)

lemma run_ok_no_exit:
  "\<forall>n. r \<noteq> Some (ProcessExit n) \<Longrightarrow> run_ok r t = quiet t"
  by (auto simp: run_ok_def split: option.splits error.splits)

lemma updateConfig_simps [simp]:
  "trace (updateConfig cs ps s) = trace s @ [UpdateConfig cs ps]"
  "components (updateConfig cs ps s) = components s"
  "projects (updateConfig cs ps s) = projects s"
  "files (updateConfig cs ps s) = files s"
  "ctx_rootDir (updateConfig cs ps s) = ctx_rootDir s"
  "cfg_srcDir (updateConfig cs ps s) = cfg_srcDir s"
  by (simp_all add: updateConfig_def)

lemma syncProjects_run_ok:
  assumes "syncProjects E opts s = (r, s')"
  shows "\<exists>t. trace s' = trace s @ t \<and> run_ok (failure r) t"
proof (cases "syncProjects_bundles E opts s")
  case (Pair r1 s1)
  from syncProjects_bundles_inv [OF Pair] obtain t1 where
    t1: "trace s1 = trace s @ t1" "run_ok (failure r1) t1" by blast
  show ?thesis
  proof (cases r1)
    case (Inl e)
    with assms Pair t1 show ?thesis by (auto simp: syncProjects_def)
  next
    case (Inr acc)
    let ?s2 = "updateConfig (components s1) (Some (projects s1)) s1"
    from assms Pair Inr have run: "fixAllImportStatements E ?s2 = (r, s')"
      by (simp add: syncProjects_def)
    from fixAllImportStatements_inv [OF run] obtain t2 where
      t2: "trace s' = trace ?s2 @ t2"
          "\<forall>e \<in> set t2. rewrite_event (keyBy c_id (components ?s2)) (keyBy projectId (projects ?s2)) e"
      and nx: "\<forall>n. failure r \<noteq> Some (ProcessExit n)" by blast
    from t2(2) have "quiet t2" by (rule rewrite_event_quiet)
    with t1 Inr t2(1) nx show ?thesis by (simp add: run_ok_no_exit)
  qed
qed

subsection \<open>Events and frame of the fix-imports command\<close>

lemma fixImports_loop_inv:
  assumes "fixImports_loop E d idx is s = (r, s')"
  shows "(\<exists>t. trace s' = trace s @ t \<and> run_ok (failure r) t \<and> (\<forall>e \<in> set t. reconcile_event e)) \<and>
         files s' = files s \<and> projects s' = projects s \<and> ctx_rootDir s' = ctx_rootDir s \<and>
         cfg_srcDir s' = cfg_srcDir s \<and> length (components s') = length (components s)"
  using assms
proof (induction "is" arbitrary: s)
  case Nil
  then show ?case by auto
next
  case (Cons i "is")
  show ?case
  proof (cases "fixComponentPaths E d i idx s")
    case (Pair r1 s1)
    note h1 = fixComponentPaths_inv [OF Pair]
    show ?thesis
    proof (cases r1)
      case (Inl e)
      with Cons.prems Pair h1 show ?thesis by simp
    next
      case (Inr u)
      with Cons.prems Pair have "fixImports_loop E d idx is s1 = (r, s')"
        by simp
      from Cons.IH [OF this] h1 Inr show ?thesis by auto
    qed
  qed
qed

lemma reconcile_event_no_update:
  "\<forall>e\<in>set t. reconcile_event e \<Longrightarrow> UpdateConfig cs ps \<notin> set t"
  by (induction t) auto

lemma rewrite_event_no_update:
  "\<forall>e\<in>set t. rewrite_event ct pt e \<Longrightarrow> UpdateConfig cs ps \<notin> set t"
  by (induction t) auto

lemma fixImports_inv:
  assumes "fixImports E s = (r, s')"
  shows "(\<exists>t. trace s' = trace s @ t \<and> run_ok (failure r) t \<and>
              (\<forall>cs ps. UpdateConfig cs ps \<in> set t \<longrightarrow> cs = components s' \<and> ps = None)) \<and>
         projects s' = projects s"
proof (cases "fixImports_loop E (src_dir E s) (buildBaseNameToFiles E s) [0 ..< length (components s)] s")
  case (Pair r1 s1)
  from fixImports_loop_inv [OF Pair] obtain t1 where
    t1: "trace s1 = trace s @ t1" "run_ok (failure r1) t1" "\<forall>e \<in> set t1. reconcile_event e"
    and fr: "projects s1 = projects s" by blast
  show ?thesis
  proof (cases r1)
    case (Inl e)
    with assms Pair t1 fr show ?thesis
      by (auto simp: fixImports_def Let_def dest: reconcile_event_no_update)
  next
    case (Inr u)
    let ?s2 = "updateConfig (components s1) None s1"
    from assms Pair Inr have run: "fixAllImportStatements E ?s2 = (r, s')"
      by (simp add: fixImports_def Let_def)
    from fixAllImportStatements_inv [OF run] obtain t2 where
      t2: "trace s' = trace ?s2 @ t2"
          "\<forall>e \<in> set t2. rewrite_event (keyBy c_id (components ?s2)) (keyBy projectId (projects ?s2)) e"
      and nx: "\<forall>n. failure r \<noteq> Some (ProcessExit n)"
      and fr2: "components s' = components ?s2" "projects s' = projects ?s2" by blast
    from t2(2) have q: "quiet t2" by (rule rewrite_event_quiet)
    have "trace s' = trace s @ (t1 @ UpdateConfig (components s1) None # t2)"
      using t1(1) t2(1) by simp
    moreover have "run_ok (failure r) (t1 @ UpdateConfig (components s1) None # t2)"
      using t1(2) Inr q nx by (simp add: run_ok_no_exit)
    moreover have "\<forall>cs ps. UpdateConfig cs ps \<in> set (t1 @ UpdateConfig (components s1) None # t2)
                     \<longrightarrow> cs = components s' \<and> ps = None"
      using reconcile_event_no_update [OF t1(3)] rewrite_event_no_update [OF t2(2)] fr2
      by auto
    ultimately show ?thesis using fr fr2 by (intro conjI exI [of _ "t1 @ UpdateConfig (components s1) None # t2"]) auto
  qed
qed

lemma run_ok_ambiguous:
  assumes "run_ok r (pre @ ConsoleErrorAmbiguous p c f # post)"
  shows "post = [Exit 1] \<and> r = Some (ProcessExit 1)"
proof -
  have nq: "\<not> quiet (pre @ ConsoleErrorAmbiguous p c f # post)" by simp
  with assms obtain n where r: "r = Some (ProcessExit n)"
    by (auto simp: run_ok_def split: option.splits error.splits)
  with assms obtain pre' e where
    n: "n = 1" and eq: "pre @ ConsoleErrorAmbiguous p c f # post = pre' @ [e, Exit 1]"
    and q: "quiet pre'"
    by (auto simp: run_ok_def)
  from eq q have "post = [Exit 1]"
    by (auto simp: append_eq_append_conv2 Cons_eq_append_conv append_eq_Cons_conv)
  with r n show ?thesis by simp
qed

subsection \<open>The reconciliation of an entry, field by field\<close>

lemma findSrcDirPath_resolve:
  "findSrcDirPath E d p idx s =
     (case resolve E d p idx (files s) of
        Inr q \<Rightarrow> (Inr q, s)
      | Inl (e, evs) \<Rightarrow> (Inl e, s\<lparr>trace := trace s @ evs\<rparr>))"
  by (simp add: findSrcDirPath_def resolve_def Let_def existsSync_def emit_def
      split: option.splits)

lemma fst_findSrcDirPath:
  "fst (findSrcDirPath E d p idx s) = Inr q \<longleftrightarrow> resolve E d p idx (files s) = Inr q"
  by (simp add: findSrcDirPath_resolve split: sum.splits prod.splits)

lemma fixComponentPaths_steps:
  "fixComponentPaths E d i idx s =
     (case fix_step E d idx renderModuleFilePath (\<lambda>q c. c\<lparr>renderModuleFilePath := q\<rparr>) i s of
        (Inl e, s1) \<Rightarrow> (Inl e, s1)
      | (Inr u, s2) \<Rightarrow>
          (case fix_step E d idx cssFilePath (\<lambda>q c. c\<lparr>cssFilePath := q\<rparr>) i s2 of
             (Inl e, s3) \<Rightarrow> (Inl e, s3)
           | (Inr u, s4) \<Rightarrow>
               if isLocalModulePath E (modulePath (importSpec (components s4 ! i)))
               then fix_step E d idx (\<lambda>c. modulePath (importSpec c))
                      (\<lambda>q c. c\<lparr>importSpec := (importSpec c)\<lparr>modulePath := q\<rparr>\<rparr>) i s4
               else (Inr (), s4)))"
  unfolding fixComponentPaths_def fix_step_def
  by (simp add: Let_def findSrcDirPath_resolve split: sum.splits prod.splits)

lemma fix_step_resolve:
  "fix_step E d idx get upd i s =
     (case resolve E d (get (components s ! i)) idx (files s) of
        Inl (e, evs) \<Rightarrow> (Inl e, s\<lparr>trace := trace s @ evs\<rparr>)
      | Inr q \<Rightarrow> (Inr (),
                  if q \<noteq> get (components s ! i)
                  then update_component i (upd q) (emit (ConsoleWarnMoved (get (components s ! i)) q) s)
                  else s))"
  by (simp add: fix_step_def findSrcDirPath_resolve split: sum.splits prod.splits)

lemma fix_step_Inr:
  assumes "fix_step E d idx get upd i s = (Inr u, s')"
    and "\<And>c. upd (get c) c = c"
  shows "\<exists>q. resolve E d (get (components s ! i)) idx (files s) = Inr q \<and>
              components s' = (components s)[i := upd q (components s ! i)] \<and>
              trace s' = trace s @ (if q \<noteq> get (components s ! i)
                                    then [ConsoleWarnMoved (get (components s ! i)) q] else []) \<and>
              files s' = files s \<and> projects s' = projects s \<and>
              ctx_rootDir s' = ctx_rootDir s \<and> cfg_srcDir s' = cfg_srcDir s"
  using assms by (auto simp: fix_step_resolve split: sum.splits prod.splits if_splits)

lemma fix_step_frame:
  assumes "fix_step E d idx get upd i s = (r, s')"
  shows "files s' = files s \<and> projects s' = projects s \<and>
         ctx_rootDir s' = ctx_rootDir s \<and> cfg_srcDir s' = cfg_srcDir s \<and>
         (components s' = components s \<or>
          (\<exists>q. resolve E d (get (components s ! i)) idx (files s) = Inr q \<and>
                q \<noteq> get (components s ! i) \<and>
                components s' = (components s)[i := upd q (components s ! i)]))"
  using assms by (auto simp: fix_step_resolve split: sum.splits prod.splits if_splits)

lemma fixComponentPaths_success:
  assumes run: "fixComponentPaths E d i idx s = (Inr u, s')" and i: "i < length (components s)"
  shows "\<exists>r k m.
      resolve E d (renderModuleFilePath (components s ! i)) idx (files s) = Inr r \<and>
      resolve E d (cssFilePath (components s ! i)) idx (files s) = Inr k \<and>
      (if isLocalModulePath E (modulePath (importSpec (components s ! i)))
       then resolve E d (modulePath (importSpec (components s ! i))) idx (files s) = Inr m
       else m = modulePath (importSpec (components s ! i))) \<and>
      components s' = (components s)[i := (components s ! i)
          \<lparr>renderModuleFilePath := r, cssFilePath := k,
           importSpec := (importSpec (components s ! i))\<lparr>modulePath := m\<rparr>\<rparr>] \<and>
      trace s' = trace s @
        (if r \<noteq> renderModuleFilePath (components s ! i)
         then [ConsoleWarnMoved (renderModuleFilePath (components s ! i)) r] else []) @
        (if k \<noteq> cssFilePath (components s ! i)
         then [ConsoleWarnMoved (cssFilePath (components s ! i)) k] else []) @
        (if m \<noteq> modulePath (importSpec (components s ! i))
         then [ConsoleWarnMoved (modulePath (importSpec (components s ! i))) m] else []) \<and>
      files s' = files s \<and> projects s' = projects s"
proof -
  let ?c = "components s ! i"
  let ?mp = "\<lambda>c. modulePath (importSpec c)"
  from run obtain s2 s4 where
    a1: "fix_step E d idx renderModuleFilePath (\<lambda>q c. c\<lparr>renderModuleFilePath := q\<rparr>) i s = (Inr (), s2)"
    and a2: "fix_step E d idx cssFilePath (\<lambda>q c. c\<lparr>cssFilePath := q\<rparr>) i s2 = (Inr (), s4)"
    and a3: "(if isLocalModulePath E (?mp (components s4 ! i))
              then fix_step E d idx ?mp (\<lambda>q c. c\<lparr>importSpec := (importSpec c)\<lparr>modulePath := q\<rparr>\<rparr>) i s4
              else (Inr (), s4)) = (Inr u, s')"
    unfolding fixComponentPaths_steps by (auto split: prod.splits sum.splits)
  from fix_step_Inr [OF a1] obtain r where
    r: "resolve E d (renderModuleFilePath ?c) idx (files s) = Inr r"
    and c2: "components s2 = (components s)[i := ?c\<lparr>renderModuleFilePath := r\<rparr>]"
    and t2: "trace s2 = trace s @ (if r \<noteq> renderModuleFilePath ?c
                                   then [ConsoleWarnMoved (renderModuleFilePath ?c) r] else [])"
    and f2: "files s2 = files s" "projects s2 = projects s"
    by auto
  have n2: "components s2 ! i = ?c\<lparr>renderModuleFilePath := r\<rparr>"
    using c2 i by simp
  from fix_step_Inr [OF a2] obtain k where
    k: "resolve E d (cssFilePath ?c) idx (files s) = Inr k"
    and c4: "components s4 = (components s)[i := ?c\<lparr>renderModuleFilePath := r, cssFilePath := k\<rparr>]"
    and t4: "trace s4 = trace s2 @ (if k \<noteq> cssFilePath ?c
                                    then [ConsoleWarnMoved (cssFilePath ?c) k] else [])"
    and f4: "files s4 = files s" "projects s4 = projects s"
    using n2 c2 f2 by auto
  have n4: "components s4 ! i = ?c\<lparr>renderModuleFilePath := r, cssFilePath := k\<rparr>"
    using c4 i by simp
  show ?thesis
  proof (cases "isLocalModulePath E (?mp ?c)")
    case False
    with a3 n4 have "s' = s4" by simp
    with False r k c4 t4 t2 f4 show ?thesis
      by (intro exI [of _ r] exI [of _ k] exI [of _ "?mp ?c"]) simp
  next
    case True
    with a3 n4 have a3': "fix_step E d idx ?mp
        (\<lambda>q c. c\<lparr>importSpec := (importSpec c)\<lparr>modulePath := q\<rparr>\<rparr>) i s4 = (Inr u, s')"
      by simp
    from fix_step_Inr [OF a3'] obtain m where
      m: "resolve E d (?mp ?c) idx (files s) = Inr m"
      and c5: "components s' = (components s)[i := ?c\<lparr>renderModuleFilePath := r, cssFilePath := k,
                  importSpec := (importSpec ?c)\<lparr>modulePath := m\<rparr>\<rparr>]"
      and t5: "trace s' = trace s4 @ (if m \<noteq> ?mp ?c then [ConsoleWarnMoved (?mp ?c) m] else [])"
      and f5: "files s' = files s" "projects s' = projects s"
      using n4 c4 f4 by auto
    with True r k t4 t2 show ?thesis
      by (intro exI [of _ r] exI [of _ k] exI [of _ m]) simp
  qed
qed

lemma fix_step_entry:
  assumes "fix_step E d idx get upd i s = (r, s')" and "i < length (components s)"
  shows "files s' = files s \<and> projects s' = projects s \<and>
         length (components s') = length (components s) \<and>
         (\<forall>j. j \<noteq> i \<longrightarrow> components s' ! j = components s ! j) \<and>
         (components s' ! i = components s ! i \<or>
          (\<exists>q. resolve E d (get (components s ! i)) idx (files s) = Inr q \<and>
                q \<noteq> get (components s ! i) \<and>
                components s' ! i = upd q (components s ! i)))"
  using fix_step_frame [OF assms(1)] assms(2) by auto

lemma reconcile_event_no_write:
  "\<forall>e\<in>set t. reconcile_event e \<Longrightarrow> WriteFileContent p c f \<notin> set t"
  by (induction t) auto

subsection \<open>The reconciliation of components does not read the projects\<close>

lemma fix_step_projects:
  "fix_step E d idx get upd i (s\<lparr>projects := ps\<rparr>) =
     (case fix_step E d idx get upd i s of (r, s') \<Rightarrow> (r, s'\<lparr>projects := ps\<rparr>))"
  by (simp add: fix_step_resolve emit_def update_component_def split: sum.splits prod.splits)

lemma fixComponentPaths_projects:
  "fixComponentPaths E d i idx (s\<lparr>projects := ps\<rparr>) =
     (case fixComponentPaths E d i idx s of (r, s') \<Rightarrow> (r, s'\<lparr>projects := ps\<rparr>))"
  by (auto simp: fixComponentPaths_steps fix_step_projects split: prod.splits sum.splits)

lemma fixImports_loop_projects:
  "fixImports_loop E d idx is (s\<lparr>projects := ps\<rparr>) =
     (case fixImports_loop E d idx is s of (r, s') \<Rightarrow> (r, s'\<lparr>projects := ps\<rparr>))"
proof (induction "is" arbitrary: s)
  case Nil
  show ?case by simp
next
  case (Cons i "is")
  show ?case
    by (auto simp: fixComponentPaths_projects Cons.IH split: prod.splits sum.splits)
qed

lemma fixImports_components:
  assumes "fixImports E s = (r, s')"
  shows "\<exists>r1. fixImports_loop E (src_dir E s) (buildBaseNameToFiles E s)
                 [0 ..< length (components s)] s = (r1, snd (fixImports_loop E (src_dir E s)
                    (buildBaseNameToFiles E s) [0 ..< length (components s)] s)) \<and>
              components s' = components (snd (fixImports_loop E (src_dir E s)
                    (buildBaseNameToFiles E s) [0 ..< length (components s)] s)) \<and>
              (failure r = Some (ProcessExit 1)) = (failure r1 = Some (ProcessExit 1))"
proof (cases "fixImports_loop E (src_dir E s) (buildBaseNameToFiles E s) [0 ..< length (components s)] s")
  case (Pair r1 s1)
  from fixImports_loop_inv [OF Pair] have ok1: "\<exists>t. run_ok (failure r1) t" by blast
  show ?thesis
  proof (cases r1)
    case (Inl e)
    with assms Pair show ?thesis by (auto simp: fixImports_def Let_def)
  next
    case (Inr u)
    with assms Pair have "fixAllImportStatements E (updateConfig (components s1) None s1) = (r, s')"
      by (simp add: fixImports_def Let_def)
    from fixAllImportStatements_inv [OF this] Pair Inr show ?thesis by simp
  qed
qed

subsection \<open>Every synced bundle is logged\<close>

lemma syncComponentBundle_logs:
  assumes "syncComponentBundle E opts d comps idx pid b acc s = (r, s')"
    and "shouldSyncComponents opts comps (b_id b) (componentName b)"
  shows "\<exists>t. trace s' = trace s @ t \<and> ConsoleLogSyncing (componentName b) pid (b_id b) \<in> set t"
  using assms unfolding syncComponentBundle_def
  by (auto simp: Let_def split: prod.splits sum.splits option.splits if_splits
      dest!: fixComponentPaths_inv)

lemma syncComponentBundles_logs:
  assumes "syncComponentBundles E opts d comps idx pid bs acc s = (Inr acc', s')"
  shows "\<exists>t. trace s' = trace s @ t \<and>
           (\<forall>b\<in>set bs. shouldSyncComponents opts comps (b_id b) (componentName b) \<longrightarrow>
              ConsoleLogSyncing (componentName b) pid (b_id b) \<in> set t)"
  using assms
proof (induction bs arbitrary: acc s)
  case Nil
  then show ?case by auto
next
  case (Cons b bs)
  obtain r1 s1 where st: "syncComponentBundle E opts d comps idx pid b acc s = (r1, s1)"
    by force
  with Cons.prems obtain acc1 where r1: "r1 = Inr acc1"
    and rest: "syncComponentBundles E opts d comps idx pid bs acc1 s1 = (Inr acc', s')"
    by (cases r1) auto
  from syncComponentBundle_inv [OF st] obtain t1 where t1: "trace s1 = trace s @ t1" by blast
  from Cons.IH [OF rest] obtain t2 where t2: "trace s' = trace s1 @ t2"
    "\<forall>b\<in>set bs. shouldSyncComponents opts comps (b_id b) (componentName b) \<longrightarrow>
        ConsoleLogSyncing (componentName b) pid (b_id b) \<in> set t2" by blast
  have "shouldSyncComponents opts comps (b_id b) (componentName b) \<longrightarrow>
        ConsoleLogSyncing (componentName b) pid (b_id b) \<in> set t1"
    using syncComponentBundle_logs [OF st] t1 by auto
  with t1 t2 show ?case
    by (intro exI [of _ "t1 @ t2"]) auto
qed

lemma syncProjectBundle_logs:
  assumes "syncProjectBundle E opts d comps idx pid pb acc s = (Inr acc', s')"
  shows "\<exists>t. trace s' = trace s @ t \<and>
           (\<forall>b\<in>set (results pb). shouldSyncComponents opts comps (b_id b) (componentName b) \<longrightarrow>
              ConsoleLogSyncing (componentName b) pid (b_id b) \<in> set t)"
proof -
  obtain r1 s1 where st: "syncComponentBundles E opts d comps idx pid (results pb) acc s = (r1, s1)"
    by force
  with assms obtain acc1 where r1: "r1 = Inr acc1"
    by (cases r1) (auto simp: syncProjectBundle_def)
  from syncComponentBundles_logs [OF st [unfolded r1]] obtain t1 where
    t1: "trace s1 = trace s @ t1"
      "\<forall>b\<in>set (results pb). shouldSyncComponents opts comps (b_id b) (componentName b) \<longrightarrow>
        ConsoleLogSyncing (componentName b) pid (b_id b) \<in> set t1" by blast
  from assms st r1 have "\<exists>t2. trace s' = trace s1 @ t2"
    by (auto simp: syncProjectBundle_def Let_def split: option.splits prod.splits sum.splits
        dest!: fixProjectFilePaths_inv)
  then obtain t2 where "trace s' = trace s1 @ t2" by blast
  with t1 show ?thesis by (intro exI [of _ "t1 @ t2"]) auto
qed

lemma syncProjectBundles_logs:
  assumes "syncProjectBundles E opts d comps idx pbs acc s = (Inr acc', s')"
  shows "\<exists>t. trace s' = trace s @ t \<and>
           (\<forall>(pid, pb)\<in>set pbs. \<forall>b\<in>set (results pb).
              shouldSyncComponents opts comps (b_id b) (componentName b) \<longrightarrow>
              ConsoleLogSyncing (componentName b) pid (b_id b) \<in> set t)"
  using assms
proof (induction pbs arbitrary: acc s)
  case Nil
  then show ?case by auto
next
  case (Cons x pbs)
  obtain pid pb where x: "x = (pid, pb)" by (cases x)
  obtain r1 s1 where st: "syncProjectBundle E opts d comps idx pid pb acc s = (r1, s1)"
    by force
  with Cons.prems x obtain acc1 where r1: "r1 = Inr acc1"
    and rest: "syncProjectBundles E opts d comps idx pbs acc1 s1 = (Inr acc', s')"
    by (cases r1) auto
  from syncProjectBundle_logs [OF st [unfolded r1]] obtain t1 where
    t1: "trace s1 = trace s @ t1"
      "\<forall>b\<in>set (results pb). shouldSyncComponents opts comps (b_id b) (componentName b) \<longrightarrow>
        ConsoleLogSyncing (componentName b) pid (b_id b) \<in> set t1" by blast
  from Cons.IH [OF rest] obtain t2 where t2: "trace s' = trace s1 @ t2"
    "\<forall>(pid, pb)\<in>set pbs. \<forall>b\<in>set (results pb).
        shouldSyncComponents opts comps (b_id b) (componentName b) \<longrightarrow>
        ConsoleLogSyncing (componentName b) pid (b_id b) \<in> set t2" by blast
  from t1 t2 x show ?case
    by (intro exI [of _ "t1 @ t2"]) auto
qed

lemma syncProjects_bundles_logs:
  assumes "syncProjects_bundles E opts s = (Inr acc, s1)"
  shows "\<exists>t. trace s1 = trace s @ t \<and>
           (\<forall>pid\<in>set (sync_projectIds opts s). \<forall>b\<in>set (results (projectComponents E pid)).
              shouldSyncComponents opts (sync_components opts (components s))
                (b_id b) (componentName b) \<longrightarrow>
              ConsoleLogSyncing (componentName b) pid (b_id b) \<in> set t)"
proof -
  let ?ids = "sync_projectIds opts s"
  from assms have run: "syncProjectBundles E opts (src_dir E s) (sync_components opts (components s))
      (buildBaseNameToFiles E s) (zip ?ids (map (projectComponents E) ?ids))
      (keyBy (\<lambda>i. c_id (components s ! i)) [0 ..< length (components s)]) s = (Inr acc, s1)"
    by (auto simp: syncProjects_bundles_def Let_def split: if_splits)
  have z: "zip ?ids (map (projectComponents E) ?ids) = map (\<lambda>p. (p, projectComponents E p)) ?ids"
    by (simp add: zip_map2 zip_same_conv_map)
  from syncProjectBundles_logs [OF run] show ?thesis
    unfolding z by auto
qed

lemma fixComponentPaths_entry:
  assumes run: "fixComponentPaths E srcDir i idx s = (r, s')" and i: "i < length (components s)"
  shows "c_id (components s' ! i) = c_id (components s ! i) \<and>
     c_name (components s' ! i) = c_name (components s ! i) \<and>
     c_type (components s' ! i) = c_type (components s ! i) \<and>
     c_projectId (components s' ! i) = c_projectId (components s ! i) \<and>
     (renderModuleFilePath (components s' ! i) \<noteq> renderModuleFilePath (components s ! i) \<longrightarrow>
        resolve E srcDir (renderModuleFilePath (components s ! i)) idx (files s) =
          Inr (renderModuleFilePath (components s' ! i))) \<and>
     (cssFilePath (components s' ! i) \<noteq> cssFilePath (components s ! i) \<longrightarrow>
        resolve E srcDir (cssFilePath (components s ! i)) idx (files s) =
          Inr (cssFilePath (components s' ! i))) \<and>
     (importSpec (components s' ! i) \<noteq> importSpec (components s ! i) \<longrightarrow>
        isLocalModulePath E (modulePath (importSpec (components s ! i))) \<and>
        resolve E srcDir (modulePath (importSpec (components s ! i))) idx (files s) =
          Inr (modulePath (importSpec (components s' ! i)))) \<and>
     length (components s') = length (components s) \<and>
     (\<forall>j. j \<noteq> i \<longrightarrow> components s' ! j = components s ! j) \<and>
     projects s' = projects s \<and> files s' = files s"
proof -
  let ?c = "components s ! i"
  let ?mp = "\<lambda>c. modulePath (importSpec c)"
  let ?goal = "\<lambda>s'. c_id (components s' ! i) = c_id ?c \<and>
     c_name (components s' ! i) = c_name ?c \<and>
     c_type (components s' ! i) = c_type ?c \<and>
     c_projectId (components s' ! i) = c_projectId ?c \<and>
     (renderModuleFilePath (components s' ! i) \<noteq> renderModuleFilePath ?c \<longrightarrow>
        resolve E srcDir (renderModuleFilePath ?c) idx (files s) =
          Inr (renderModuleFilePath (components s' ! i))) \<and>
     (cssFilePath (components s' ! i) \<noteq> cssFilePath ?c \<longrightarrow>
        resolve E srcDir (cssFilePath ?c) idx (files s) =
          Inr (cssFilePath (components s' ! i))) \<and>
     (importSpec (components s' ! i) \<noteq> importSpec ?c \<longrightarrow>
        isLocalModulePath E (?mp ?c) \<and>
        resolve E srcDir (?mp ?c) idx (files s) = Inr (?mp (components s' ! i))) \<and>
     length (components s') = length (components s) \<and>
     (\<forall>j. j \<noteq> i \<longrightarrow> components s' ! j = components s ! j) \<and>
     projects s' = projects s \<and> files s' = files s"
  obtain r1 s2 where a1:
    "fix_step E srcDir idx renderModuleFilePath (\<lambda>q c. c\<lparr>renderModuleFilePath := q\<rparr>) i s = (r1, s2)"
    by force
  note e1 = fix_step_entry [OF a1 i]
  from e1 have i2: "i < length (components s2)" using i by simp
  from e1 have imp2: "importSpec (components s2 ! i) = importSpec ?c"
    "cssFilePath (components s2 ! i) = cssFilePath ?c" by auto
  from e1 have g2: "?goal s2" by auto
  show ?thesis
  proof (cases r1)
    case (Inl e)
    with run a1 have "s' = s2" by (simp add: fixComponentPaths_steps)
    with g2 show ?thesis by simp
  next
    case (Inr u1)
    obtain r3 s4 where a2:
      "fix_step E srcDir idx cssFilePath (\<lambda>q c. c\<lparr>cssFilePath := q\<rparr>) i s2 = (r3, s4)"
      by force
    note e2 = fix_step_entry [OF a2 i2]
    from e2 have i4: "i < length (components s4)" using i2 by simp
    from e2 imp2 have imp4: "importSpec (components s4 ! i) = importSpec ?c" by auto
    from e1 e2 have g4: "?goal s4" by auto
    show ?thesis
    proof (cases r3)
      case (Inl e)
      with run a1 a2 Inr have "s' = s4" by (simp add: fixComponentPaths_steps)
      with g4 show ?thesis by simp
    next
      case Inr3: (Inr u3)
      show ?thesis
      proof (cases "isLocalModulePath E (?mp ?c)")
        case False
        with run a1 a2 Inr Inr3 imp4 have "s' = s4" by (simp add: fixComponentPaths_steps)
        with g4 show ?thesis by simp
      next
        case True
        with run a1 a2 Inr Inr3 imp4 have a3:
          "fix_step E srcDir idx ?mp (\<lambda>q c. c\<lparr>importSpec := (importSpec c)\<lparr>modulePath := q\<rparr>\<rparr>) i s4
             = (r, s')"
          by (simp add: fixComponentPaths_steps)
        note e3 = fix_step_entry [OF a3 i4]
        from e1 e2 e3 True show ?thesis by auto
      qed
    qed
  qed
qed


subsection \<open>The table of references\<close>

text \<open>
  The table of references: it starts sound, an id is absent from it exactly when no entry
  has that id, and every step of the loops keeps it sound, so that a reference read from
  it always is a position of the array.
\<close>

lemma keyBy_snoc: "keyBy f (xs @ [x]) = AList.update (f x) x (keyBy f xs)"
  by (simp add: keyBy_def)

lemma keyBy_None: "map_of (keyBy f xs) k = None \<longleftrightarrow> k \<notin> f ` set xs"
  by (induction xs rule: rev_induct) (auto simp: keyBy_snoc update_conv' keyBy_def)

lemma keyBy_Some: "map_of (keyBy f xs) k = Some x \<Longrightarrow> x \<in> set xs \<and> f x = k"
  by (induction xs rule: rev_induct)
     (auto simp: keyBy_snoc update_conv' keyBy_def split: if_splits)

lemma table_ok_initial:
  "table_ok (keyBy (\<lambda>i. c_id (components s ! i)) [0 ..< length (components s)]) s"
  unfolding table_ok_def by (auto dest!: keyBy_Some)

lemma table_None_initial:
  "map_of (keyBy (\<lambda>i. c_id (components s ! i)) [0 ..< length (components s)]) k = None
     \<longleftrightarrow> k \<notin> c_id ` set (components s)"
proof -
  have "(\<lambda>i. c_id (components s ! i)) ` set [0 ..< length (components s)] = c_id ` set (components s)"
    by (force simp: in_set_conv_nth image_iff)
  then show ?thesis by (simp only: keyBy_None)
qed

lemma syncComponentBundle_table_ok:
  assumes ok: "table_ok acc s"
    and run: "syncComponentBundle E opts d comps idx pid b acc s = (Inr acc', s')"
  shows "table_ok acc' s'"
proof (cases "shouldSyncComponents opts comps (b_id b) (componentName b)")
  case False
  with run ok show ?thesis by (simp add: syncComponentBundle_def)
next
  case sel: True
  show ?thesis
  proof (cases "map_of acc (b_id b)")
    case None
    with run sel have acc': "acc' = AList.update (b_id b) (length (components s)) acc"
      and cs: "components s' = components s @
          [\<lparr> c_id = b_id b, c_name = componentName b, c_type = ''managed'', c_projectId = pid,
             renderModuleFilePath = renderModuleFileName b,
             importSpec = \<lparr> modulePath = skeletonModuleFileName b \<rparr>,
             cssFilePath = cssFileName b \<rparr>]"
      by (auto simp: syncComponentBundle_def Let_def split: if_splits)
    show ?thesis
      unfolding table_ok_def acc' cs using ok
      by (fastforce simp: table_ok_def update_conv' nth_append less_Suc_eq split: if_splits)
  next
    case (Some i)
    let ?s0 = "emit (ConsoleLogSyncing (componentName b) pid (b_id b)) s"
    from ok Some have i: "i < length (components ?s0)" by (simp add: table_ok_def)
    obtain r1 s1 where fx: "fixComponentPaths E d i idx ?s0 = (r1, s1)" by force
    from run sel Some fx have acc': "acc' = acc" and cs: "components s' = components s1"
      by (auto simp: syncComponentBundle_def Let_def split: sum.splits)
    from fixComponentPaths_entry [OF fx i] have
      "c_id (components s1 ! i) = c_id (components s ! i)"
      "length (components s1) = length (components s)"
      "\<forall>j. j \<noteq> i \<longrightarrow> components s1 ! j = components s ! j"
      by simp_all
    with ok show ?thesis
      unfolding table_ok_def acc' cs by metis
  qed
qed

lemma syncComponentBundles_table_ok:
  assumes "table_ok acc s"
    and "syncComponentBundles E opts d comps idx pid bs acc s = (Inr acc', s')"
  shows "table_ok acc' s'"
  using assms
proof (induction bs arbitrary: acc s)
  case Nil
  then show ?case by simp
next
  case (Cons b bs)
  obtain r1 s1 where st: "syncComponentBundle E opts d comps idx pid b acc s = (r1, s1)"
    by force
  with Cons.prems obtain acc1 where r1: "r1 = Inr acc1"
    and rest: "syncComponentBundles E opts d comps idx pid bs acc1 s1 = (Inr acc', s')"
    by (cases r1) auto
  from syncComponentBundle_table_ok [OF Cons.prems(1) st [unfolded r1]]
  have "table_ok acc1 s1" .
  from Cons.IH [OF this rest] show ?case .
qed

lemma syncProjectBundle_table_ok:
  assumes ok: "table_ok acc s"
    and run: "syncProjectBundle E opts d comps idx pid pb acc s = (Inr acc', s')"
  shows "table_ok acc' s'"
proof -
  obtain r1 s1 where st: "syncComponentBundles E opts d comps idx pid (results pb) acc s = (r1, s1)"
    by force
  with run obtain acc1 where r1: "r1 = Inr acc1"
    by (cases r1) (auto simp: syncProjectBundle_def)
  from syncComponentBundles_table_ok [OF ok st [unfolded r1]] have ok1: "table_ok acc1 s1" .
  from run st r1 have "acc' = acc1 \<and> components s' = components s1"
    by (auto simp: syncProjectBundle_def Let_def split: option.splits prod.splits sum.splits
        dest!: fixProjectFilePaths_inv)
  with ok1 show ?thesis by (simp add: table_ok_def)
qed

lemma syncProjectBundles_table_ok:
  assumes "table_ok acc s"
    and "syncProjectBundles E opts d comps idx pbs acc s = (Inr acc', s')"
  shows "table_ok acc' s'"
  using assms
proof (induction pbs arbitrary: acc s)
  case Nil
  then show ?case by simp
next
  case (Cons x pbs)
  obtain pid pb where x: "x = (pid, pb)" by (cases x)
  obtain r1 s1 where st: "syncProjectBundle E opts d comps idx pid pb acc s = (r1, s1)"
    by force
  with Cons.prems x obtain acc1 where r1: "r1 = Inr acc1"
    and rest: "syncProjectBundles E opts d comps idx pbs acc1 s1 = (Inr acc', s')"
    by (cases r1) auto
  from syncProjectBundle_table_ok [OF Cons.prems(1) st [unfolded r1]]
  have "table_ok acc1 s1" .
  from Cons.IH [OF this rest] show ?case .
qed

lemma syncProjects_bundles_table_ok:
  assumes "syncProjects_bundles E opts s = (Inr acc, s1)"
  shows "table_ok acc s1"
  using assms syncProjectBundles_table_ok [OF table_ok_initial]
  by (auto simp: syncProjects_bundles_def Let_def split: if_splits)

subsection \<open>What the import rewriter writes\<close>

lemma fixFileImportStatements_writes:
  assumes "fixFileImportStatements E d p ct pt s = (Inr u, s')"
  shows "\<exists>c. trace s' = trace s @ [ReplaceImports p ct pt, WriteFileContent (path_join E d p) c True]"
  using assms by (auto simp: fixFileImportStatements_def Let_def split: option.splits)

lemma fixComponentImportStatements_module:
  assumes "fixComponentImportStatements E d c ct pt s = (Inr u, s')"
    and "isLocalModulePath E (modulePath (importSpec c))"
  shows "\<exists>t. trace s' = trace s @ t \<and>
           (\<exists>content. WriteFileContent (path_join E d (modulePath (importSpec c))) content True
                        \<in> set t)"
proof -
  from assms obtain s1 s2 where
    a1: "fixFileImportStatements E d (renderModuleFilePath c) ct pt s = (Inr (), s1)"
    and a2: "fixFileImportStatements E d (cssFilePath c) ct pt s1 = (Inr (), s2)"
    and a3: "fixFileImportStatements E d (modulePath (importSpec c)) ct pt s2 = (Inr u, s')"
    unfolding fixComponentImportStatements_def by (auto split: prod.splits sum.splits)
  from fixFileImportStatements_inv [OF a1] obtain t1 where t1: "trace s1 = trace s @ t1" by blast
  from fixFileImportStatements_inv [OF a2] obtain t2 where t2: "trace s2 = trace s1 @ t2" by blast
  from fixFileImportStatements_writes [OF a3] obtain content where
    t3: "trace s' = trace s2 @ [ReplaceImports (modulePath (importSpec c)) ct pt,
           WriteFileContent (path_join E d (modulePath (importSpec c))) content True]"
    by blast
  show ?thesis
    by (intro exI [of _ "t1 @ t2 @ [ReplaceImports (modulePath (importSpec c)) ct pt,
           WriteFileContent (path_join E d (modulePath (importSpec c))) content True]"] conjI
        exI [of _ content])
       (simp_all add: t1 t2 t3)
qed

lemma fixAllImportStatements_loop_module:
  assumes "fixAllImportStatements_loop E d ct pt cs s = (Inr u, s')"
  shows "\<exists>t. trace s' = trace s @ t \<and>
           (\<forall>c\<in>set cs. isLocalModulePath E (modulePath (importSpec c)) \<longrightarrow>
              (\<exists>content. WriteFileContent (path_join E d (modulePath (importSpec c))) content True
                           \<in> set t))"
  using assms
proof (induction cs arbitrary: s)
  case Nil
  then show ?case by auto
next
  case (Cons c cs)
  obtain r1 s1 where st: "fixComponentImportStatements E d c ct pt s = (r1, s1)"
    by force
  with Cons.prems obtain u1 where r1: "r1 = Inr u1"
    and rest: "fixAllImportStatements_loop E d ct pt cs s1 = (Inr u, s')"
    by (cases r1) auto
  from fixComponentImportStatements_inv [OF st] obtain t1 where t1: "trace s1 = trace s @ t1"
    by blast
  from Cons.IH [OF rest] obtain t2 where t2: "trace s' = trace s1 @ t2"
    "\<forall>c\<in>set cs. isLocalModulePath E (modulePath (importSpec c)) \<longrightarrow>
       (\<exists>content. WriteFileContent (path_join E d (modulePath (importSpec c))) content True
                    \<in> set t2)" by blast
  have "isLocalModulePath E (modulePath (importSpec c)) \<longrightarrow>
       (\<exists>content. WriteFileContent (path_join E d (modulePath (importSpec c))) content True
                    \<in> set t1)"
    using fixComponentImportStatements_module [OF st [unfolded r1]] t1 by auto
  with t1 t2 show ?case
    by (intro exI [of _ "t1 @ t2"]) auto
qed

lemma syncProjects_module_written:
  assumes run: "syncProjects E opts s = (Inr u, s')"
    and c: "c \<in> set (components s')"
    and loc: "isLocalModulePath E (modulePath (importSpec c))"
  shows "\<exists>content. WriteFileContent (path_join E (src_dir E s) (modulePath (importSpec c)))
                      content True \<in> set (drop (length (trace s)) (trace s'))"
proof -
  obtain r1 s1 where b: "syncProjects_bundles E opts s = (r1, s1)" by force
  with run obtain acc where r1: "r1 = Inr acc" by (cases r1) (auto simp: syncProjects_def)
  let ?s2 = "updateConfig (components s1) (Some (projects s1)) s1"
  from run b r1 have rw: "fixAllImportStatements E ?s2 = (Inr u, s')"
    by (simp add: syncProjects_def)
  from syncProjects_bundles_inv [OF b] obtain t1 where
    t1: "trace s1 = trace s @ t1" and d: "ctx_rootDir s1 = ctx_rootDir s" "cfg_srcDir s1 = cfg_srcDir s"
    by blast
  have sd: "src_dir E ?s2 = src_dir E s" using d by (simp add: src_dir_def)
  from fixAllImportStatements_inv [OF rw] have cs: "components s' = components s1" by simp
  from rw have "fixAllImportStatements_loop E (src_dir E s) (keyBy c_id (components s1))
      (keyBy projectId (projects s1)) (components s1) ?s2 = (Inr u, s')"
    by (simp add: fixAllImportStatements_def Let_def sd)
  from fixAllImportStatements_loop_module [OF this] obtain t2 where
    t2: "trace s' = trace ?s2 @ t2"
    "\<forall>c\<in>set (components s1). isLocalModulePath E (modulePath (importSpec c)) \<longrightarrow>
       (\<exists>content. WriteFileContent (path_join E (src_dir E s) (modulePath (importSpec c)))
                     content True \<in> set t2)" by blast
  from t2(2) c cs loc obtain content where
    w: "WriteFileContent (path_join E (src_dir E s) (modulePath (importSpec c))) content True \<in> set t2"
    by auto
  have "drop (length (trace s)) (trace s') =
          t1 @ UpdateConfig (components s1) (Some (projects s1)) # t2"
    using t1 t2(1) by simp
  with w show ?thesis by auto
qed

section \<open>Unique move detection\<close>

text \<open>
  Claim C2. When no file exists at \<^verbatim>\<open>srcDir/expectedPath\<close> and exactly one file of the
  index built from all files has the bare name of the expected path, \<^verbatim>\<open>findSrcDirPath\<close>
  returns the path of that file relative to the source directory, and prints nothing.
\<close>

theorem unique_move_returns_relative_path:
  assumes "\<not> existsSync s (path_join E srcDir expectedPath)"
    and "filter (\<lambda>f. path_basename E f = path_basename E expectedPath) allFiles = [f]"
  shows "findSrcDirPath E srcDir expectedPath (groupBy (path_basename E) allFiles) s =
           (Inr (path_relative E srcDir f), s)"
  using assms by (simp add: findSrcDirPath_def Let_def groupBy_lookup)

theorem unique_move_returns_relative_path_witness:
  "\<not> existsSync moved_state (path_join sample_extern ''/r/src'' ''old/PB.tsx'') \<and>
   filter (\<lambda>f. path_basename sample_extern f = path_basename sample_extern ''old/PB.tsx'')
     (glob_sync sample_extern (files moved_state) ''/r/src'') = [''/r/src/x/PB.tsx''] \<and>
   findSrcDirPath sample_extern ''/r/src'' ''old/PB.tsx''
     (buildBaseNameToFiles sample_extern moved_state) moved_state = (Inr ''x/PB.tsx'', moved_state)"
proof -
  have h1: "\<not> existsSync moved_state (path_join sample_extern ''/r/src'' ''old/PB.tsx'')"
    by (simp add: sample_defs existsSync_def)
  have h2: "filter (\<lambda>f. path_basename sample_extern f = path_basename sample_extern ''old/PB.tsx'')
     (glob_sync sample_extern (files moved_state) ''/r/src'') = [''/r/src/x/PB.tsx'']"
    by (simp add: sample_defs)
  have h3: "src_dir sample_extern moved_state = ''/r/src''"
    by (simp add: sample_defs src_dir_def)
  have h4: "path_relative sample_extern ''/r/src'' ''/r/src/x/PB.tsx'' = ''x/PB.tsx''"
    by (simp add: sample_defs)
  show ?thesis
    using h1 h2 unique_move_returns_relative_path [OF h1 h2]
    by (simp add: buildBaseNameToFiles_def Let_def h3 h4)
qed

section \<open>Selection of the components to sync\<close>




section \<open>Create-only writes\<close>

text \<open>
  Claim C8. A write with \<^verbatim>\<open>force = false\<close> to a path at which a file exists leaves the
  files as they are: the content at the path, and at every other path, is the one before
  the call, whatever the new content is.
\<close>

theorem create_only_write_keeps_existing_file:
  "existsSync s path \<Longrightarrow>
     files (writeFileContent path content False s) = files s \<and>
     files (writeFileContent path content False s) path = files s path"
  by (simp add: writeFileContent_def emit_def Let_def)

theorem create_only_write_keeps_existing_file_witness:
  "existsSync moved_state ''/r/src/x/B.tsx'' \<and>
   files (writeFileContent ''/r/src/x/B.tsx'' ''skeleton2'' False moved_state) ''/r/src/x/B.tsx''
     = Some ''skeleton1''"
proof -
  have h: "existsSync moved_state ''/r/src/x/B.tsx''"
    by (simp add: existsSync_def sample_defs)
  show ?thesis
    using h create_only_write_keeps_existing_file [OF h, of "''skeleton2''"]
    by (simp add: sample_defs)
qed

section \<open>Ambiguous relocation\<close>

text \<open>
  Claim C1. When no file exists at \<^verbatim>\<open>srcDir/expectedPath\<close> and two or more files of
  the index have its bare name, \<^verbatim>\<open>findSrcDirPath\<close> returns no path: it prints the
  ambiguity error with all the candidates and exits with code 1. In every pass of
  \<^verbatim>\<open>sync\<close> and of \<^verbatim>\<open>fix-imports\<close>, the ambiguity error is followed by the exit and by
  nothing else, so no file is written after it, and the pass ends with exit code 1.
\<close>

theorem ambiguous_relocation_is_fatal:
  assumes "\<not> existsSync s (path_join E srcDir expectedPath)"
    and "cands = filter (\<lambda>f. path_basename E f = path_basename E expectedPath) allFiles"
    and "2 \<le> length cands"
  shows "findSrcDirPath E srcDir expectedPath (groupBy (path_basename E) allFiles) s =
           (Inl (ProcessExit 1),
            s\<lparr>trace := trace s @ [ConsoleErrorAmbiguous expectedPath cands
                                     (path_basename E expectedPath), Exit 1]\<rparr>) \<and>
         (\<forall>opts s0 r s'. syncProjects E opts s0 = (r, s') \<longrightarrow>
            (\<exists>t. trace s' = trace s0 @ t \<and>
                 (\<forall>pre post p c f. t = pre @ ConsoleErrorAmbiguous p c f # post \<longrightarrow>
                    post = [Exit 1] \<and> r = Inl (ProcessExit 1)))) \<and>
         (\<forall>s0 r s'. fixImports E s0 = (r, s') \<longrightarrow>
            (\<exists>t. trace s' = trace s0 @ t \<and>
                 (\<forall>pre post p c f. t = pre @ ConsoleErrorAmbiguous p c f # post \<longrightarrow>
                    post = [Exit 1] \<and> r = Inl (ProcessExit 1))))"
proof (intro conjI allI impI)
  show "findSrcDirPath E srcDir expectedPath (groupBy (path_basename E) allFiles) s =
           (Inl (ProcessExit 1),
            s\<lparr>trace := trace s @ [ConsoleErrorAmbiguous expectedPath cands
                                     (path_basename E expectedPath), Exit 1]\<rparr>)"
    using assms by (auto simp: findSrcDirPath_def Let_def groupBy_lookup emit_def)
next
  fix opts s0 r s'
  assume "syncProjects E opts s0 = (r, s')"
  from syncProjects_run_ok [OF this] obtain t where
    t: "trace s' = trace s0 @ t" "run_ok (failure r) t" by blast
  have "\<forall>pre post p c f. t = pre @ ConsoleErrorAmbiguous p c f # post \<longrightarrow>
          post = [Exit 1] \<and> r = Inl (ProcessExit 1)"
    using t(2) by (cases r) (auto dest!: run_ok_ambiguous)
  with t(1) show "\<exists>t. trace s' = trace s0 @ t \<and>
      (\<forall>pre post p c f. t = pre @ ConsoleErrorAmbiguous p c f # post \<longrightarrow>
          post = [Exit 1] \<and> r = Inl (ProcessExit 1))" by blast
next
  fix s0 r s'
  assume "fixImports E s0 = (r, s')"
  from fixImports_inv [OF this] obtain t where
    t: "trace s' = trace s0 @ t" "run_ok (failure r) t" by blast
  have "\<forall>pre post p c f. t = pre @ ConsoleErrorAmbiguous p c f # post \<longrightarrow>
          post = [Exit 1] \<and> r = Inl (ProcessExit 1)"
    using t(2) by (cases r) (auto dest!: run_ok_ambiguous)
  with t(1) show "\<exists>t. trace s' = trace s0 @ t \<and>
      (\<forall>pre post p c f. t = pre @ ConsoleErrorAmbiguous p c f # post \<longrightarrow>
          post = [Exit 1] \<and> r = Inl (ProcessExit 1))" by blast
qed

theorem ambiguous_relocation_is_fatal_witness:
  "\<not> existsSync ambiguous_state (path_join sample_extern ''/r/src'' ''old/PB.tsx'') \<and>
   2 \<le> length [''/r/src/x/PB.tsx'', ''/r/src/y/PB.tsx''] \<and>
   findSrcDirPath sample_extern ''/r/src'' ''old/PB.tsx''
     (groupBy (path_basename sample_extern)
        (glob_sync sample_extern (files ambiguous_state) ''/r/src'')) ambiguous_state =
     (Inl (ProcessExit 1),
      ambiguous_state\<lparr>trace := trace ambiguous_state @
         [ConsoleErrorAmbiguous ''old/PB.tsx'' [''/r/src/x/PB.tsx'', ''/r/src/y/PB.tsx'']
            (path_basename sample_extern ''old/PB.tsx''), Exit 1]\<rparr>) \<and>
   syncProjects sample_extern sample_opts ambiguous_state =
     (Inl (ProcessExit 1),
      ambiguous_state\<lparr>trace :=
        [ConsoleLogSyncing ''B'' ''P1'' ''c1'',
         ConsoleErrorAmbiguous ''old/PB.tsx'' [''/r/src/x/PB.tsx'', ''/r/src/y/PB.tsx''] ''PB.tsx'',
         Exit 1]\<rparr>)"
proof -
  have h1: "\<not> existsSync ambiguous_state (path_join sample_extern ''/r/src'' ''old/PB.tsx'')"
    by (simp add: sample_defs existsSync_def)
  have h2: "[''/r/src/x/PB.tsx'', ''/r/src/y/PB.tsx''] =
      filter (\<lambda>f. path_basename sample_extern f = path_basename sample_extern ''old/PB.tsx'')
        (glob_sync sample_extern (files ambiguous_state) ''/r/src'')"
    by (simp add: sample_defs)
  have h3: "2 \<le> length [''/r/src/x/PB.tsx'', ''/r/src/y/PB.tsx'']"
    by simp
  have run: "syncProjects sample_extern sample_opts ambiguous_state =
     (Inl (ProcessExit 1),
      ambiguous_state\<lparr>trace :=
        [ConsoleLogSyncing ''B'' ''P1'' ''c1'',
         ConsoleErrorAmbiguous ''old/PB.tsx'' [''/r/src/x/PB.tsx'', ''/r/src/y/PB.tsx''] ''PB.tsx'',
         Exit 1]\<rparr>)"
    by (simp add: model_defs sample_defs)
  from ambiguous_relocation_is_fatal [OF h1 h2 h3] h1 h3 run show ?thesis
    by blast
qed

section \<open>Paths that are kept\<close>

text \<open>
  A path at which a file exists is returned as it is, and so is a path whose bare name no
  file of the index has, as long as that bare name is not the name of a property that
  objects inherit.
\<close>

lemma kept_path_unless_inherited:
  assumes "existsSync s (path_join E srcDir expectedPath) \<or>
           (filter (\<lambda>f. path_basename E f = path_basename E expectedPath) allFiles = [] \<and>
            object_prototype (path_basename E expectedPath) = None)"
  shows "findSrcDirPath E srcDir expectedPath (groupBy (path_basename E) allFiles) s =
           (Inr expectedPath, s)"
  using assms by (auto simp: findSrcDirPath_def Let_def groupBy_lookup)

text \<open>
  Claim C3 says what the comment above \<^verbatim>\<open>findSrcDirPath\<close> promises: when no file of the
  name can be found, the expected path is returned. The code does not keep the promise
  for a bare name that objects inherit. No file exists at \<^verbatim>\<open>/r/src/old/toString\<close> and no
  file of the index is named \<^verbatim>\<open>toString\<close>; yet for the expected path \<^verbatim>\<open>old/toString\<close> the
  code prints the ambiguity error and exits with code 1, and for \<^verbatim>\<open>old/constructor\<close> it
  throws, where the claim has both paths returned unchanged.
\<close>

theorem inherited_name_is_not_kept:
  "\<not> existsSync moved_state (path_join sample_extern ''/r/src'' ''old/toString'') \<and>
   filter (\<lambda>f. path_basename sample_extern f = path_basename sample_extern ''old/toString'')
     (glob_sync sample_extern (files moved_state) ''/r/src'') = [] \<and>
   findSrcDirPath sample_extern ''/r/src'' ''old/toString''
     (buildBaseNameToFiles sample_extern moved_state) moved_state =
     (Inl (ProcessExit 1),
      moved_state\<lparr>trace :=
        [ConsoleErrorInherited ''old/toString'' (JSFunction 0) ''toString'', Exit 1]\<rparr>) \<and>
   \<not> existsSync moved_state (path_join sample_extern ''/r/src'' ''old/constructor'') \<and>
   filter (\<lambda>f. path_basename sample_extern f = path_basename sample_extern ''old/constructor'')
     (glob_sync sample_extern (files moved_state) ''/r/src'') = [] \<and>
   findSrcDirPath sample_extern ''/r/src'' ''old/constructor''
     (buildBaseNameToFiles sample_extern moved_state) moved_state =
     (Inl (TypeError ''path.relative''), moved_state)"
  by (simp add: model_defs sample_defs)

section \<open>Reconciliation before the overwrite\<close>

text \<open>
  Claim C6. For a component that is synced and has a tracked entry, when the reconciliation
  of the entry does not end the pass: the render module path and the style path of the
  entry (and the module path of its import specification when it is local) are resolved
  against the files as they were; each path that differs from the declared one is
  reported by a warning and assigned to the entry; and only then the render module and
  the style sheet are written, with \<^verbatim>\<open>force = true\<close>, at the resolved paths.
\<close>

theorem existing_component_reconciled_before_overwrite:
  assumes sel: "shouldSyncComponents opts comps (b_id bundle) (componentName bundle)"
    and tracked: "map_of allCompConfigs (b_id bundle) = Some i"
    and i: "i < length (components s)"
    and run: "syncComponentBundle E opts srcDir comps idx projId bundle allCompConfigs s = (Inr acc, s')"
  shows "\<exists>r k m.
      fst (findSrcDirPath E srcDir (renderModuleFilePath (components s ! i)) idx s) = Inr r \<and>
      fst (findSrcDirPath E srcDir (cssFilePath (components s ! i)) idx s) = Inr k \<and>
      (if isLocalModulePath E (modulePath (importSpec (components s ! i)))
       then fst (findSrcDirPath E srcDir (modulePath (importSpec (components s ! i))) idx s) = Inr m
       else m = modulePath (importSpec (components s ! i))) \<and>
      components s' = (components s)[i := (components s ! i)
          \<lparr>renderModuleFilePath := r, cssFilePath := k,
           importSpec := (importSpec (components s ! i))\<lparr>modulePath := m\<rparr>\<rparr>] \<and>
      trace s' = trace s @
        [ConsoleLogSyncing (componentName bundle) projId (b_id bundle)] @
        (if r \<noteq> renderModuleFilePath (components s ! i)
         then [ConsoleWarnMoved (renderModuleFilePath (components s ! i)) r] else []) @
        (if k \<noteq> cssFilePath (components s ! i)
         then [ConsoleWarnMoved (cssFilePath (components s ! i)) k] else []) @
        (if m \<noteq> modulePath (importSpec (components s ! i))
         then [ConsoleWarnMoved (modulePath (importSpec (components s ! i))) m] else []) @
        [WriteFileContent (path_join E srcDir r) (renderModule bundle) True,
         WriteFileContent (path_join E srcDir k) (cssRules bundle) True] \<and>
      files s' = (files s)(path_join E srcDir r \<mapsto> renderModule bundle,
                           path_join E srcDir k \<mapsto> cssRules bundle)"
proof -
  let ?s0 = "emit (ConsoleLogSyncing (componentName bundle) projId (b_id bundle)) s"
  obtain r1 s1 where f: "fixComponentPaths E srcDir i idx ?s0 = (r1, s1)"
    by force
  from run sel tracked f obtain u where r1: "r1 = Inr u"
    by (cases r1) (auto simp: syncComponentBundle_def Let_def)
  from run sel tracked f r1 have s': "s' =
      writeFileContent (path_join E srcDir (cssFilePath (components s1 ! i))) (cssRules bundle) True
        (writeFileContent (path_join E srcDir (renderModuleFilePath (components s1 ! i)))
           (renderModule bundle) True s1)"
    by (auto simp: syncComponentBundle_def Let_def)
  from i have i0: "i < length (components ?s0)" by simp
  note h = fixComponentPaths_success [OF f [unfolded r1] i0, unfolded emit_simps append_assoc]
  from h obtain r k m where
    r: "resolve E srcDir (renderModuleFilePath (components s ! i)) idx (files s) = Inr r"
    and k: "resolve E srcDir (cssFilePath (components s ! i)) idx (files s) = Inr k"
    and m: "if isLocalModulePath E (modulePath (importSpec (components s ! i)))
            then resolve E srcDir (modulePath (importSpec (components s ! i))) idx (files s) = Inr m
            else m = modulePath (importSpec (components s ! i))"
    and c1: "components s1 = (components s)[i := (components s ! i)
          \<lparr>renderModuleFilePath := r, cssFilePath := k,
           importSpec := (importSpec (components s ! i))\<lparr>modulePath := m\<rparr>\<rparr>]"
    and t1: "trace s1 = trace s @
        [ConsoleLogSyncing (componentName bundle) projId (b_id bundle)] @
        (if r \<noteq> renderModuleFilePath (components s ! i)
         then [ConsoleWarnMoved (renderModuleFilePath (components s ! i)) r] else []) @
        (if k \<noteq> cssFilePath (components s ! i)
         then [ConsoleWarnMoved (cssFilePath (components s ! i)) k] else []) @
        (if m \<noteq> modulePath (importSpec (components s ! i))
         then [ConsoleWarnMoved (modulePath (importSpec (components s ! i))) m] else [])"
    and f1: "files s1 = files s"
    by blast
  have n1: "renderModuleFilePath (components s1 ! i) = r" "cssFilePath (components s1 ! i) = k"
    using c1 i by simp_all
  have files': "files s' = (files s)(path_join E srcDir r \<mapsto> renderModule bundle,
                           path_join E srcDir k \<mapsto> cssRules bundle)"
    unfolding s' n1 by (simp add: writeFileContent_def Let_def f1)
  have trace': "trace s' = trace s1 @
        [WriteFileContent (path_join E srcDir r) (renderModule bundle) True,
         WriteFileContent (path_join E srcDir k) (cssRules bundle) True]"
    unfolding s' n1 by simp
  have comps': "components s' = components s1"
    unfolding s' by simp
  from r k m c1 t1 files' trace' comps' show ?thesis
    by (intro exI [of _ r] exI [of _ k] exI [of _ m]) (simp add: fst_findSrcDirPath)
qed

theorem existing_component_reconciled_before_overwrite_witness:
  "shouldSyncComponents sample_opts [''c1''] (b_id sample_component) (componentName sample_component) \<and>
   map_of [(''c1'', 0::nat)] (b_id sample_component) = Some 0 \<and>
   0 < length (components moved_state) \<and>
   fst (syncComponentBundle sample_extern sample_opts ''/r/src'' [''c1'']
          (buildBaseNameToFiles sample_extern moved_state) ''P1'' sample_component
          [(''c1'', 0)] moved_state) = Inr [(''c1'', 0)] \<and>
   trace (snd (syncComponentBundle sample_extern sample_opts ''/r/src'' [''c1'']
          (buildBaseNameToFiles sample_extern moved_state) ''P1'' sample_component
          [(''c1'', 0)] moved_state)) =
     [ConsoleLogSyncing ''B'' ''P1'' ''c1'',
      ConsoleWarnMoved ''old/PB.tsx'' ''x/PB.tsx'',
      ConsoleWarnMoved ''old/PB.css'' ''x/PB.css'',
      ConsoleWarnMoved ''old/B.tsx'' ''x/B.tsx'',
      WriteFileContent ''/r/src/x/PB.tsx'' ''render2'' True,
      WriteFileContent ''/r/src/x/PB.css'' ''css2'' True]"
proof -
  let ?idx = "buildBaseNameToFiles sample_extern moved_state"
  let ?run = "syncComponentBundle sample_extern sample_opts ''/r/src'' [''c1''] ?idx ''P1''
                sample_component [(''c1'', 0)] moved_state"
  have h1: "shouldSyncComponents sample_opts [''c1''] (b_id sample_component)
              (componentName sample_component)"
    by (simp add: shouldSyncComponents_def sample_defs)
  have h2: "map_of [(''c1'', 0::nat)] (b_id sample_component) = Some 0"
    by (simp add: sample_defs)
  have h3: "0 < length (components moved_state)"
    by (simp add: sample_defs)
  have fst_run: "fst ?run = Inr [(''c1'', 0)]"
    by (simp add: model_defs sample_defs)
  then have h4: "?run = (Inr [(''c1'', 0)], snd ?run)"
    by (metis prod.collapse)
  have e1: "fst (findSrcDirPath sample_extern ''/r/src''
                  (renderModuleFilePath (components moved_state ! 0)) ?idx moved_state) = Inr ''x/PB.tsx''"
    by (simp add: model_defs sample_defs)
  have e2: "fst (findSrcDirPath sample_extern ''/r/src''
                  (cssFilePath (components moved_state ! 0)) ?idx moved_state) = Inr ''x/PB.css''"
    by (simp add: model_defs sample_defs)
  have e3: "fst (findSrcDirPath sample_extern ''/r/src''
                  (modulePath (importSpec (components moved_state ! 0))) ?idx moved_state) = Inr ''x/B.tsx''"
    by (simp add: model_defs sample_defs)
  have loc: "isLocalModulePath sample_extern (modulePath (importSpec (components moved_state ! 0)))"
    by (simp add: sample_defs)
  have c0: "renderModuleFilePath (components moved_state ! 0) = ''old/PB.tsx''"
    "cssFilePath (components moved_state ! 0) = ''old/PB.css''"
    "modulePath (importSpec (components moved_state ! 0)) = ''old/B.tsx''"
    "trace moved_state = []"
    "componentName sample_component = ''B''" "b_id sample_component = ''c1''"
    "renderModule sample_component = ''render2''" "cssRules sample_component = ''css2''"
    "path_join sample_extern ''/r/src'' ''x/PB.tsx'' = ''/r/src/x/PB.tsx''"
    "path_join sample_extern ''/r/src'' ''x/PB.css'' = ''/r/src/x/PB.css''"
    by (simp_all add: sample_defs)
  from existing_component_reconciled_before_overwrite [OF h1 h2 h3 h4] obtain r k m where
    r: "fst (findSrcDirPath sample_extern ''/r/src''
              (renderModuleFilePath (components moved_state ! 0)) ?idx moved_state) = Inr r"
    and k: "fst (findSrcDirPath sample_extern ''/r/src''
              (cssFilePath (components moved_state ! 0)) ?idx moved_state) = Inr k"
    and m: "if isLocalModulePath sample_extern (modulePath (importSpec (components moved_state ! 0)))
       then fst (findSrcDirPath sample_extern ''/r/src''
                  (modulePath (importSpec (components moved_state ! 0))) ?idx moved_state) = Inr m
       else m = modulePath (importSpec (components moved_state ! 0))"
    and t: "trace (snd ?run) = trace moved_state @
        [ConsoleLogSyncing (componentName sample_component) ''P1'' (b_id sample_component)] @
        (if r \<noteq> renderModuleFilePath (components moved_state ! 0)
         then [ConsoleWarnMoved (renderModuleFilePath (components moved_state ! 0)) r] else []) @
        (if k \<noteq> cssFilePath (components moved_state ! 0)
         then [ConsoleWarnMoved (cssFilePath (components moved_state ! 0)) k] else []) @
        (if m \<noteq> modulePath (importSpec (components moved_state ! 0))
         then [ConsoleWarnMoved (modulePath (importSpec (components moved_state ! 0))) m] else []) @
        [WriteFileContent (path_join sample_extern ''/r/src'' r) (renderModule sample_component) True,
         WriteFileContent (path_join sample_extern ''/r/src'' k) (cssRules sample_component) True]"
    by blast
  from r e1 have r': "r = ''x/PB.tsx''" by simp
  from k e2 have k': "k = ''x/PB.css''" by simp
  from m loc e3 have m': "m = ''x/B.tsx''" by simp
  have tr: "trace (snd ?run) =
     [ConsoleLogSyncing ''B'' ''P1'' ''c1'',
      ConsoleWarnMoved ''old/PB.tsx'' ''x/PB.tsx'',
      ConsoleWarnMoved ''old/PB.css'' ''x/PB.css'',
      ConsoleWarnMoved ''old/B.tsx'' ''x/B.tsx'',
      WriteFileContent ''/r/src/x/PB.tsx'' ''render2'' True,
      WriteFileContent ''/r/src/x/PB.css'' ''css2'' True]"
    unfolding t r' k' m' c0 by simp
  from h1 h2 h3 fst_run tr show ?thesis by blast
qed

section \<open>The frame of the reconciliation of a component\<close>

text \<open>
  Claim C9. \<^verbatim>\<open>fixComponentPaths\<close>, whether it returns or ends the pass, leaves the id,
  the name, the type and the project id of the entry as they are. A path field that has
  changed holds the resolved value of its declared path (which therefore differs from the
  declared one), and the import specification changes only when its module path is local.
  Every other entry, the project entries and the files are unchanged.
\<close>

theorem fixComponentPaths_changes_paths_only:
  assumes run: "fixComponentPaths E srcDir i idx s = (r, s')" and i: "i < length (components s)"
  shows "c_id (components s' ! i) = c_id (components s ! i) \<and>
     c_name (components s' ! i) = c_name (components s ! i) \<and>
     c_type (components s' ! i) = c_type (components s ! i) \<and>
     c_projectId (components s' ! i) = c_projectId (components s ! i) \<and>
     (renderModuleFilePath (components s' ! i) \<noteq> renderModuleFilePath (components s ! i) \<longrightarrow>
        fst (findSrcDirPath E srcDir (renderModuleFilePath (components s ! i)) idx s) =
          Inr (renderModuleFilePath (components s' ! i))) \<and>
     (cssFilePath (components s' ! i) \<noteq> cssFilePath (components s ! i) \<longrightarrow>
        fst (findSrcDirPath E srcDir (cssFilePath (components s ! i)) idx s) =
          Inr (cssFilePath (components s' ! i))) \<and>
     (importSpec (components s' ! i) \<noteq> importSpec (components s ! i) \<longrightarrow>
        isLocalModulePath E (modulePath (importSpec (components s ! i))) \<and>
        fst (findSrcDirPath E srcDir (modulePath (importSpec (components s ! i))) idx s) =
          Inr (modulePath (importSpec (components s' ! i)))) \<and>
     length (components s') = length (components s) \<and>
     (\<forall>j. j \<noteq> i \<longrightarrow> components s' ! j = components s ! j) \<and>
     projects s' = projects s \<and> files s' = files s"
  using fixComponentPaths_entry [OF assms] by (simp add: fst_findSrcDirPath)

theorem fixComponentPaths_changes_paths_only_witness:
  "0 < length (components moved_state) \<and>
   c_id (components (snd (fixComponentPaths sample_extern ''/r/src'' 0
           (buildBaseNameToFiles sample_extern moved_state) moved_state)) ! 0) =
     c_id (components moved_state ! 0) \<and>
   projects (snd (fixComponentPaths sample_extern ''/r/src'' 0
           (buildBaseNameToFiles sample_extern moved_state) moved_state)) = projects moved_state \<and>
   files (snd (fixComponentPaths sample_extern ''/r/src'' 0
           (buildBaseNameToFiles sample_extern moved_state) moved_state)) = files moved_state"
proof -
  have h: "0 < length (components moved_state)"
    by (simp add: sample_defs)
  from fixComponentPaths_changes_paths_only [OF surjective_pairing h] h show ?thesis
    by blast
qed

section \<open>First sync of a component\<close>

text \<open>
  Claim C7, as stated, fails. The skeleton file, created by the create-only write of the
  first pass, is written again, with \<^verbatim>\<open>force = true\<close>, by the import rewriter of the next
  pass. And a component whose id is the name of an inherited property, here
  \<^verbatim>\<open>constructor\<close>, has no tracked entry and yet gets no write at all: the pass ends with a
  \<^verbatim>\<open>TypeError\<close> right after the log line.
\<close>

theorem skeleton_is_rewritten_counterexample:
  "WriteFileContent ''/r/src/B.tsx'' ''skeleton2'' False
     \<in> set (trace (snd (syncProjects sample_extern sample_opts fresh_state))) \<and>
   WriteFileContent ''/r/src/B.tsx'' ''skeleton2'' True
     \<in> set (trace (snd (syncProjects sample_extern sample_opts
                 ((snd (syncProjects sample_extern sample_opts fresh_state))\<lparr>trace := []\<rparr>)))) \<and>
   syncComponentBundle sample_extern sample_opts ''/r/src'' [] Map.empty ''P1''
     (sample_component\<lparr>b_id := ''constructor''\<rparr>) [] fresh_state =
     (Inl (TypeError ''path.basename''),
      fresh_state\<lparr>trace := [ConsoleLogSyncing ''B'' ''P1'' ''constructor'']\<rparr>)"
  by (simp add: model_defs sample_defs)

text \<open>
  Claim C7, amended. A synced component without an entry in \<^verbatim>\<open>allCompConfigs\<close>, whose id
  is not the name of an inherited property, gets exactly three writes, all with
  \<^verbatim>\<open>force = false\<close>: render module, style sheet and skeleton, in this order; and an entry
  with the file names of the bundle as its paths is appended to \<^verbatim>\<open>config.components\<close>. For
  a component with an entry, the step of the bundle writes nothing but the render module
  and the style sheet, with \<^verbatim>\<open>force = true\<close>, at the paths of the entry: the skeleton of
  the bundle is not written. In the table built at the start of the pass, a component has
  no entry exactly when no tracked component has its id. And in every sync pass that runs
  to its end, the import rewriter writes, with \<^verbatim>\<open>force = true\<close>, the file at the module
  path of every tracked component whose module path is local.
\<close>

theorem new_component_written_create_only:
  assumes sel: "shouldSyncComponents opts comps (b_id bundle) (componentName bundle)"
  shows "(map_of allCompConfigs (b_id bundle) = None \<longrightarrow>
          object_prototype (b_id bundle) = None \<longrightarrow>
            fst (syncComponentBundle E opts srcDir comps idx projId bundle allCompConfigs s) =
              Inr (AList.update (b_id bundle) (length (components s)) allCompConfigs) \<and>
            trace (snd (syncComponentBundle E opts srcDir comps idx projId bundle allCompConfigs s)) =
              trace s @
              [ConsoleLogSyncing (componentName bundle) projId (b_id bundle),
               WriteFileContent (path_join E srcDir (renderModuleFileName bundle))
                 (renderModule bundle) False,
               WriteFileContent (path_join E srcDir (cssFileName bundle)) (cssRules bundle) False,
               WriteFileContent (path_join E srcDir (skeletonModuleFileName bundle))
                 (skeletonModule bundle) False] \<and>
            components (snd (syncComponentBundle E opts srcDir comps idx projId bundle allCompConfigs s)) =
              components s @
              [\<lparr> c_id = b_id bundle, c_name = componentName bundle, c_type = ''managed'',
                 c_projectId = projId, renderModuleFilePath = renderModuleFileName bundle,
                 importSpec = \<lparr> modulePath = skeletonModuleFileName bundle \<rparr>,
                 cssFilePath = cssFileName bundle \<rparr>]) \<and>
         (\<forall>i s' p c f.
            map_of allCompConfigs (b_id bundle) = Some i \<longrightarrow>
            s' = snd (syncComponentBundle E opts srcDir comps idx projId bundle allCompConfigs s) \<longrightarrow>
            WriteFileContent p c f \<in> set (drop (length (trace s)) (trace s')) \<longrightarrow>
            f \<and> ((p = path_join E srcDir (renderModuleFilePath (components s' ! i)) \<and>
                   c = renderModule bundle) \<or>
                  (p = path_join E srcDir (cssFilePath (components s' ! i)) \<and>
                   c = cssRules bundle))) \<and>
         ((map_of (keyBy (\<lambda>i. c_id (components s ! i)) [0 ..< length (components s)])
            (b_id bundle) = None) = (b_id bundle \<notin> c_id ` set (components s))) \<and>
         (\<forall>opts0 s0 u s1 c0.
            syncProjects E opts0 s0 = (Inr u, s1) \<longrightarrow>
            c0 \<in> set (components s1) \<longrightarrow>
            isLocalModulePath E (modulePath (importSpec c0)) \<longrightarrow>
            (\<exists>content. WriteFileContent (path_join E (src_dir E s0) (modulePath (importSpec c0)))
                          content True \<in> set (drop (length (trace s0)) (trace s1))))"
proof (intro conjI impI allI)
  show "(map_of (keyBy (\<lambda>i. c_id (components s ! i)) [0 ..< length (components s)])
            (b_id bundle) = None) = (b_id bundle \<notin> c_id ` set (components s))"
    by (rule table_None_initial)
next
  fix opts0 s0 u s1 c0
  assume "syncProjects E opts0 s0 = (Inr u, s1)" "c0 \<in> set (components s1)"
    "isLocalModulePath E (modulePath (importSpec c0))"
  then show "\<exists>content. WriteFileContent (path_join E (src_dir E s0) (modulePath (importSpec c0)))
                          content True \<in> set (drop (length (trace s0)) (trace s1))"
    by (rule syncProjects_module_written)
next
  assume new: "map_of allCompConfigs (b_id bundle) = None"
    and own: "object_prototype (b_id bundle) = None"
  show "fst (syncComponentBundle E opts srcDir comps idx projId bundle allCompConfigs s) =
              Inr (AList.update (b_id bundle) (length (components s)) allCompConfigs)"
    using sel new own by (simp add: syncComponentBundle_def Let_def)
  show "trace (snd (syncComponentBundle E opts srcDir comps idx projId bundle allCompConfigs s)) =
              trace s @
              [ConsoleLogSyncing (componentName bundle) projId (b_id bundle),
               WriteFileContent (path_join E srcDir (renderModuleFileName bundle))
                 (renderModule bundle) False,
               WriteFileContent (path_join E srcDir (cssFileName bundle)) (cssRules bundle) False,
               WriteFileContent (path_join E srcDir (skeletonModuleFileName bundle))
                 (skeletonModule bundle) False]"
    using sel new own by (simp add: syncComponentBundle_def Let_def)
  show "components (snd (syncComponentBundle E opts srcDir comps idx projId bundle allCompConfigs s)) =
              components s @
              [\<lparr> c_id = b_id bundle, c_name = componentName bundle, c_type = ''managed'',
                 c_projectId = projId, renderModuleFilePath = renderModuleFileName bundle,
                 importSpec = \<lparr> modulePath = skeletonModuleFileName bundle \<rparr>,
                 cssFilePath = cssFileName bundle \<rparr>]"
    using sel new own by (simp add: syncComponentBundle_def Let_def)
next
  fix i s' p c f
  assume tracked: "map_of allCompConfigs (b_id bundle) = Some i"
    and s': "s' = snd (syncComponentBundle E opts srcDir comps idx projId bundle allCompConfigs s)"
    and w: "WriteFileContent p c f \<in> set (drop (length (trace s)) (trace s'))"
  let ?s0 = "emit (ConsoleLogSyncing (componentName bundle) projId (b_id bundle)) s"
  obtain r1 s1 where fx: "fixComponentPaths E srcDir i idx ?s0 = (r1, s1)"
    by force
  from fixComponentPaths_inv [OF fx] obtain t where
    t: "trace s1 = trace ?s0 @ t" "\<forall>e\<in>set t. reconcile_event e" by blast
  note nw = reconcile_event_no_write [OF t(2)]
  have "f \<and> ((p = path_join E srcDir (renderModuleFilePath (components s' ! i)) \<and>
                   c = renderModule bundle) \<or>
                  (p = path_join E srcDir (cssFilePath (components s' ! i)) \<and>
                   c = cssRules bundle))"
  proof (cases r1)
    case (Inl e)
    with sel tracked fx s' have "s' = s1" by (simp add: syncComponentBundle_def Let_def)
    with w t nw show ?thesis by simp
  next
    case (Inr u)
    with sel tracked fx s' have eq: "s' =
      writeFileContent (path_join E srcDir (cssFilePath (components s1 ! i))) (cssRules bundle) True
        (writeFileContent (path_join E srcDir (renderModuleFilePath (components s1 ! i)))
           (renderModule bundle) True s1)"
      by (simp add: syncComponentBundle_def Let_def)
    have "components s' = components s1" unfolding eq by simp
    moreover have "trace s' = trace s @
        ConsoleLogSyncing (componentName bundle) projId (b_id bundle) # t @
        [WriteFileContent (path_join E srcDir (renderModuleFilePath (components s1 ! i)))
           (renderModule bundle) True,
         WriteFileContent (path_join E srcDir (cssFilePath (components s1 ! i)))
           (cssRules bundle) True]"
      unfolding eq using t(1) by simp
    ultimately show ?thesis using w nw by auto
  qed
  then show "f" and "(p = path_join E srcDir (renderModuleFilePath (components s' ! i)) \<and>
                   c = renderModule bundle) \<or>
                  (p = path_join E srcDir (cssFilePath (components s' ! i)) \<and>
                   c = cssRules bundle)"
    by simp_all
qed

theorem new_component_written_create_only_witness:
  "shouldSyncComponents sample_opts [] (b_id sample_component) (componentName sample_component) \<and>
   map_of ([] :: (string \<times> nat) list) (b_id sample_component) = None \<and>
   object_prototype (b_id sample_component) = None \<and>
   trace (snd (syncComponentBundle sample_extern sample_opts ''/r/src'' [] Map.empty ''P1''
                 sample_component [] fresh_state)) =
     [ConsoleLogSyncing ''B'' ''P1'' ''c1'',
      WriteFileContent ''/r/src/PB.tsx'' ''render2'' False,
      WriteFileContent ''/r/src/PB.css'' ''css2'' False,
      WriteFileContent ''/r/src/B.tsx'' ''skeleton2'' False] \<and>
   components (snd (syncComponentBundle sample_extern sample_opts ''/r/src'' [] Map.empty ''P1''
                 sample_component [] fresh_state)) =
     [\<lparr> c_id = ''c1'', c_name = ''B'', c_type = ''managed'', c_projectId = ''P1'',
        renderModuleFilePath = ''PB.tsx'', importSpec = \<lparr> modulePath = ''B.tsx'' \<rparr>,
        cssFilePath = ''PB.css'' \<rparr>]"
proof -
  have h1: "shouldSyncComponents sample_opts [] (b_id sample_component)
              (componentName sample_component)"
    by (simp add: shouldSyncComponents_def)
  have h2: "map_of ([] :: (string \<times> nat) list) (b_id sample_component) = None"
    by simp
  have h3: "object_prototype (b_id sample_component) = None"
    by (simp add: sample_defs)
  note new = new_component_written_create_only [OF h1, THEN conjunct1, rule_format, OF h2 h3,
      of sample_extern "''/r/src''" Map.empty "''P1''" fresh_state]
  from new h1 h2 h3 show ?thesis
    by (simp add: sample_defs)
qed

section \<open>The fix-imports command and the project entries\<close>

text \<open>
  Claim C10. \<^verbatim>\<open>fixImports\<close> leaves \<^verbatim>\<open>config.projects\<close> as it is, whatever its outcome;
  the only call of \<^verbatim>\<open>updateConfig\<close> hands over the components and no projects; and
  neither the component entries it ends with nor an exit for ambiguity depend on the
  project entries, which are thus not looked at by the reconciliation. The sync pass, in
  contrast, does change a project entry: in the sample installation it corrects the
  context file path.
\<close>

theorem fixImports_leaves_projects_alone:
  assumes run: "fixImports E s = (r, s')"
  shows "projects s' = projects s \<and>
     (\<exists>t. trace s' = trace s @ t \<and>
          (\<forall>cs ps. UpdateConfig cs ps \<in> set t \<longrightarrow> cs = components s' \<and> ps = None)) \<and>
     (\<forall>ps. components (snd (fixImports E (s\<lparr>projects := ps\<rparr>))) = components s' \<and>
           (failure (fst (fixImports E (s\<lparr>projects := ps\<rparr>))) = Some (ProcessExit 1)) =
             (failure r = Some (ProcessExit 1))) \<and>
     projects (snd (syncProjects sample_extern sample_opts stale_project_state)) \<noteq>
       projects stale_project_state"
proof (intro conjI allI)
  from fixImports_inv [OF run] show "projects s' = projects s" by blast
  from fixImports_inv [OF run] show "\<exists>t. trace s' = trace s @ t \<and>
          (\<forall>cs ps. UpdateConfig cs ps \<in> set t \<longrightarrow> cs = components s' \<and> ps = None)" by blast
next
  fix ps
  let ?s = "s\<lparr>projects := ps\<rparr>"
  let ?loop = "fixImports_loop E (src_dir E s) (buildBaseNameToFiles E s)
                 [0 ..< length (components s)]"
  have same: "src_dir E ?s = src_dir E s" "buildBaseNameToFiles E ?s = buildBaseNameToFiles E s"
    "components ?s = components s"
    by (simp_all add: src_dir_def buildBaseNameToFiles_def)
  have loop: "?loop ?s = (fst (?loop s), (snd (?loop s))\<lparr>projects := ps\<rparr>)"
    by (simp add: fixImports_loop_projects split: prod.splits)
  from fixImports_components [OF run] have
    a: "components s' = components (snd (?loop s))"
       "(failure r = Some (ProcessExit 1)) = (failure (fst (?loop s)) = Some (ProcessExit 1))"
    by (metis fst_conv)+
  from fixImports_components [OF surjective_pairing, of E ?s] have
    b: "components (snd (fixImports E ?s)) = components (snd (?loop ?s))"
       "(failure (fst (fixImports E ?s)) = Some (ProcessExit 1)) =
          (failure (fst (?loop ?s)) = Some (ProcessExit 1))"
    unfolding same by (metis fst_conv)+
  from a b loop show "components (snd (fixImports E ?s)) = components s'" by simp
  from a b loop show "(failure (fst (fixImports E ?s)) = Some (ProcessExit 1)) =
             (failure r = Some (ProcessExit 1))" by simp
next
  show "projects (snd (syncProjects sample_extern sample_opts stale_project_state)) \<noteq>
       projects stale_project_state"
    by (simp add: model_defs sample_defs)
qed

theorem fixImports_leaves_projects_alone_witness:
  "fixImports sample_extern stale_project_state =
     (fst (fixImports sample_extern stale_project_state),
      snd (fixImports sample_extern stale_project_state)) \<and>
   projects (snd (fixImports sample_extern stale_project_state)) =
     [tracked_project\<lparr>contextFilePath := ''old/Ctx.tsx''\<rparr>]"
  using fixImports_leaves_projects_alone [OF surjective_pairing, THEN conjunct1,
      of sample_extern stale_project_state]
  by (simp add: stale_project_state_def)

section \<open>The order of bundle processing and import rewriting\<close>

text \<open>
  The events of a sync pass split in two parts. The first part holds no call of
  \<^verbatim>\<open>replaceImports\<close>; when the loop over the projects ends the pass, it is all there is.
  Otherwise the first part is everything the loop over all projects and bundles did,
  with the log line of every synced bundle in it, followed by the call of
  \<^verbatim>\<open>updateConfig\<close>; and the second part holds nothing but calls of \<^verbatim>\<open>replaceImports\<close>
  with the tables keyed from the component and project entries as the loop left them,
  and the forced writes of the rewritten files.
\<close>

lemma rewriting_follows_bundle_loop:
  assumes run: "syncProjects E opts s = (r, s')"
  shows "\<exists>pre post. trace s' = trace s @ pre @ post \<and>
      (\<forall>e\<in>set pre. \<not> is_ReplaceImports e) \<and>
      (case syncProjects_bundles E opts s of
         (Inl e, s1) \<Rightarrow> post = [] \<and> r = Inl e \<and> s' = s1
       | (Inr acc, s1) \<Rightarrow>
           trace s @ pre = trace s1 @ [UpdateConfig (components s1) (Some (projects s1))] \<and>
           (\<forall>pid\<in>set (sync_projectIds opts s). \<forall>b\<in>set (results (projectComponents E pid)).
              shouldSyncComponents opts (sync_components opts (components s))
                (b_id b) (componentName b) \<longrightarrow>
              ConsoleLogSyncing (componentName b) pid (b_id b) \<in> set pre) \<and>
           components s' = components s1 \<and> projects s' = projects s1 \<and>
           (\<forall>e\<in>set post. rewrite_event (keyBy c_id (components s'))
                             (keyBy projectId (projects s')) e))"
proof (cases "syncProjects_bundles E opts s")
  case (Pair r1 s1)
  from syncProjects_bundles_inv [OF Pair] obtain t1 where
    t1: "trace s1 = trace s @ t1" "\<forall>e \<in> set t1. \<not> is_ReplaceImports e" by blast
  show ?thesis
  proof (cases r1)
    case (Inl e)
    with run Pair have "r = Inl e" "s' = s1" by (simp_all add: syncProjects_def)
    with Pair Inl t1 show ?thesis
      by (intro exI [of _ t1] exI [of _ "[]"]) simp
  next
    case (Inr acc)
    let ?u = "UpdateConfig (components s1) (Some (projects s1))"
    let ?s2 = "updateConfig (components s1) (Some (projects s1)) s1"
    from run Pair Inr have rw: "fixAllImportStatements E ?s2 = (r, s')"
      by (simp add: syncProjects_def)
    from fixAllImportStatements_inv [OF rw] obtain t2 where
      t2: "trace s' = trace ?s2 @ t2"
          "\<forall>e \<in> set t2. rewrite_event (keyBy c_id (components ?s2)) (keyBy projectId (projects ?s2)) e"
      and fr: "components s' = components ?s2" "projects s' = projects ?s2" by blast
    from syncProjects_bundles_logs [OF Pair [unfolded Inr]] t1(1) have logs:
      "\<forall>pid\<in>set (sync_projectIds opts s). \<forall>b\<in>set (results (projectComponents E pid)).
              shouldSyncComponents opts (sync_components opts (components s))
                (b_id b) (componentName b) \<longrightarrow>
              ConsoleLogSyncing (componentName b) pid (b_id b) \<in> set t1"
      by auto
    have "trace s' = trace s @ (t1 @ [?u]) @ t2"
      using t1(1) t2(1) by simp
    moreover have "\<forall>e\<in>set (t1 @ [?u]). \<not> is_ReplaceImports e"
      using t1(2) by simp
    moreover have "trace s @ (t1 @ [?u]) = trace s1 @ [?u]"
      using t1(1) by simp
    moreover have "\<forall>pid\<in>set (sync_projectIds opts s). \<forall>b\<in>set (results (projectComponents E pid)).
              shouldSyncComponents opts (sync_components opts (components s))
                (b_id b) (componentName b) \<longrightarrow>
              ConsoleLogSyncing (componentName b) pid (b_id b) \<in> set (t1 @ [?u])"
      using logs by simp
    moreover have "\<forall>e\<in>set t2. rewrite_event (keyBy c_id (components s'))
                             (keyBy projectId (projects s')) e"
      using t2(2) fr by simp
    ultimately show ?thesis
      using Pair Inr fr by (intro exI [of _ "t1 @ [?u]"] exI [of _ t2]) simp
  qed
qed

text \<open>
  Claim C4 has the rewriter see reconciled paths only, as the comment before the call of
  \<^verbatim>\<open>fixAllImportStatements\<close> says (``Now we know config.components are all correct''). The
  order holds, but the loop reconciles the entries of the synced bundles only, while the
  rewriter takes its tables from, and runs over, all of \<^verbatim>\<open>config.components\<close>. With two
  tracked components of which the server returns the first only, the entry of the second
  still names \<^verbatim>\<open>old/Card.tsx\<close>, which \<^verbatim>\<open>findSrcDirPath\<close> would resolve to
  \<^verbatim>\<open>x/Card.tsx\<close>: \<^verbatim>\<open>replaceImports\<close> is called with the stale path in its table, and the pass
  then fails reading \<^verbatim>\<open>/r/src/old/Card.tsx\<close>. \<^verbatim>\<open>fixImports\<close>, on the same state, reconciles
  every entry first.
\<close>

theorem unsynced_entry_reaches_rewriter_stale:
  "map c_id (components unsynced_state) = [''c1'', ''c9''] \<and>
   map b_id (results (projectComponents sample_extern ''P1'')) = [''c1''] \<and>
   renderModuleFilePath stale_card = ''old/Card.tsx'' \<and>
   fst (findSrcDirPath sample_extern ''/r/src'' ''old/Card.tsx''
          (buildBaseNameToFiles sample_extern unsynced_state) unsynced_state) = Inr ''x/Card.tsx'' \<and>
   ReplaceImports ''x/PB.tsx'' [(''c1'', settled_component), (''c9'', stale_card)]
       [(''P1'', tracked_project)]
     \<in> set (trace (snd (syncProjects sample_extern sample_opts unsynced_state))) \<and>
   fst (syncProjects sample_extern sample_opts unsynced_state) =
     Inl (ReadFileError ''/r/src/old/Card.tsx'') \<and>
   map renderModuleFilePath (components (snd (fixImports sample_extern unsynced_state))) =
     [''x/PB.tsx'', ''x/Card.tsx'']"
  by (simp add: model_defs sample_defs)

end
